theory Spec2Isabelle
  imports Complex_Main "HOL-Library.Word"
begin

unbundle bit_operations_syntax

section \<open>PolyClipper: vectors, planes and vertices of \<^verbatim>\<open>polyclipper.hh\<close>\<close>

text \<open>
  The header declares the data model (\<^verbatim>\<open>Vector2d\<close>, \<^verbatim>\<open>Vector3d\<close>, \<^verbatim>\<open>Plane2d\<close>,
  \<^verbatim>\<open>Plane3d\<close>, \<^verbatim>\<open>Vertex2d\<close>, \<^verbatim>\<open>Vertex3d\<close>) with its inline operators, and only
  declares the polygon and polyhedron methods.

  The scalar of every struct is a C++ \<^verbatim>\<open>double\<close>. The records below take the scalar as a
  type parameter. Where a property is about \<^verbatim>\<open>==\<close> on doubles the scalar is \<open>double\<close>, the
  64-bit pattern of an IEEE-754 binary64 number with the comparison of the standard. Where a
  property is about the arithmetic of the clipper the scalar is \<open>real\<close>: sums, products and
  quotients are exact there, and the rounding of the machine is not part of the model.
\<close>

subsection \<open>IEEE-754 binary64 and its equality\<close>

text \<open>A \<^verbatim>\<open>double\<close> is the 64 bits of its IEEE-754 binary64 encoding.\<close>

type_synonym double = "64 word"

text \<open>Bit 63 is the sign.\<close>

definition sign_bit :: "double \<Rightarrow> bool" where
  "sign_bit d = bit d 63"

text \<open>Bits 52 to 62 are the biased exponent.\<close>

definition exponent :: "double \<Rightarrow> nat" where
  "exponent d = unat (take_bit 11 (drop_bit 52 d))"

text \<open>Bits 0 to 51 are the fraction.\<close>

definition fraction :: "double \<Rightarrow> nat" where
  "fraction d = unat (take_bit 52 d)"

text \<open>What a pattern denotes: a NaN, an infinity with its sign, or a finite number.\<close>

datatype fpvalue = NaN | Infinity bool | Finite real

text \<open>
  The magnitude of a finite pattern: \<open>fraction * 2^-1074\<close> for a subnormal number and
  \<open>(2^52 + fraction) * 2^(exponent - 1075)\<close> for a normal one.
\<close>

definition magnitude_of :: "double \<Rightarrow> real" where
  "magnitude_of d =
     (if exponent d = 0 then real (fraction d) * 2 / 2 ^ 1075
      else real (2 ^ 52 + fraction d) * 2 ^ exponent d / 2 ^ 1075)"

text \<open>The exponent field 2047 encodes the infinities (fraction 0) and the NaNs; a zero keeps its sign bit but denotes the number 0.\<close>

definition valof :: "double \<Rightarrow> fpvalue" where
  "valof d =
     (if exponent d = 2047 then (if fraction d = 0 then Infinity (sign_bit d) else NaN)
      else Finite (if sign_bit d then - magnitude_of d else magnitude_of d))"

text \<open>
  \<^verbatim>\<open>a == b\<close> on doubles: false when an operand is a NaN, otherwise the comparison of the
  two values (so that the two zeros are equal).
\<close>

definition double_eq :: "double \<Rightarrow> double \<Rightarrow> bool" where
  "double_eq a b = (valof a \<noteq> NaN \<and> valof b \<noteq> NaN \<and> valof a = valof b)"

text \<open>The NaN patterns, as \<^verbatim>\<open>std::isnan\<close> tells them.\<close>

definition isnan :: "double \<Rightarrow> bool" where
  "isnan d = (exponent d = 2047 \<and> fraction d \<noteq> 0)"

text \<open>The two zeros: \<^verbatim>\<open>+0.0\<close> is the pattern 0, \<^verbatim>\<open>-0.0\<close> has only the sign bit set.\<close>

definition iszero :: "double \<Rightarrow> bool" where
  "iszero d = (d = 0 \<or> d = 0x8000000000000000)"

subsection \<open>Vectors\<close>

text \<open>\<^verbatim>\<open>struct Vector2d { double x, y; ... }\<close> and \<^verbatim>\<open>struct Vector3d { double x, y, z; ... }\<close>.\<close>

record 'a Vector2d =
  x2d :: 'a
  y2d :: 'a

record 'a Vector3d =
  x3d :: 'a
  y3d :: 'a
  z3d :: 'a

text \<open>\<^verbatim>\<open>bool operator==(const Vector2d& rhs) const { return x == rhs.x and y == rhs.y; }\<close>\<close>

definition Vector2d_eq :: "double Vector2d \<Rightarrow> double Vector2d \<Rightarrow> bool" where
  "Vector2d_eq lhs rhs = (double_eq (x2d lhs) (x2d rhs) \<and> double_eq (y2d lhs) (y2d rhs))"

text \<open>\<^verbatim>\<open>return x == rhs.x and y == rhs.y and z == rhs.z;\<close>\<close>

definition Vector3d_eq :: "double Vector3d \<Rightarrow> double Vector3d \<Rightarrow> bool" where
  "Vector3d_eq lhs rhs =
     (double_eq (x3d lhs) (x3d rhs) \<and> double_eq (y3d lhs) (y3d rhs) \<and>
      double_eq (z3d lhs) (z3d rhs))"

subsection \<open>Planes\<close>

text \<open>
  \<^verbatim>\<open>struct Plane2d { double dist; Vector normal; int ID; ... }\<close> and the same fields in
  \<^verbatim>\<open>Plane3d\<close>.
\<close>

record 'a Plane2d =
  dist2d :: 'a
  normal2d :: "'a Vector2d"
  pID2d :: int

record 'a Plane3d =
  normal3d :: "'a Vector3d"
  dist3d :: 'a
  pID3d :: int

text \<open>\<^verbatim>\<open>bool operator==(const Plane2d& rhs) const { return (dist == rhs.dist and normal == rhs.normal); }\<close>\<close>

definition Plane2d_eq :: "double Plane2d \<Rightarrow> double Plane2d \<Rightarrow> bool" where
  "Plane2d_eq lhs rhs =
     (double_eq (dist2d lhs) (dist2d rhs) \<and> Vector2d_eq (normal2d lhs) (normal2d rhs))"

text \<open>\<^verbatim>\<open>bool operator!=(const Plane2d& rhs) const { return not (*this == rhs); }\<close>\<close>

definition Plane2d_ne :: "double Plane2d \<Rightarrow> double Plane2d \<Rightarrow> bool" where
  "Plane2d_ne lhs rhs = (\<not> Plane2d_eq lhs rhs)"

text \<open>\<^verbatim>\<open>bool operator==(const Plane3d& rhs) const { return (dist == rhs.dist and normal == rhs.normal); }\<close>\<close>

definition Plane3d_eq :: "double Plane3d \<Rightarrow> double Plane3d \<Rightarrow> bool" where
  "Plane3d_eq lhs rhs =
     (double_eq (dist3d lhs) (dist3d rhs) \<and> Vector3d_eq (normal3d lhs) (normal3d rhs))"

text \<open>\<^verbatim>\<open>bool operator!=(const Plane3d& rhs) const { return not (*this == rhs); }\<close>\<close>

definition Plane3d_ne :: "double Plane3d \<Rightarrow> double Plane3d \<Rightarrow> bool" where
  "Plane3d_ne lhs rhs = (\<not> Plane3d_eq lhs rhs)"

subsection \<open>Vector arithmetic\<close>

text \<open>
  The inline operators of \<^verbatim>\<open>Vector2d\<close> and \<^verbatim>\<open>Vector3d\<close>, over exact scalars:
  \<^verbatim>\<open>dot\<close>, \<^verbatim>\<open>cross\<close>, \<^verbatim>\<open>magnitude2\<close>, \<^verbatim>\<open>operator*(double)\<close>, \<^verbatim>\<open>operator/(double)\<close>,
  \<^verbatim>\<open>operator+\<close>, binary and unary \<^verbatim>\<open>operator-\<close>.
\<close>

text \<open>\<^verbatim>\<open>double dot(const Vector2d& rhs) const { return x*rhs.x + y*rhs.y; }\<close>\<close>

definition dot2d :: "real Vector2d \<Rightarrow> real Vector2d \<Rightarrow> real" where
  "dot2d v rhs = x2d v * x2d rhs + y2d v * y2d rhs"

text \<open>\<^verbatim>\<open>double cross(const Vector2d& rhs) const { return x*rhs.y - y*rhs.x; }\<close>\<close>

definition cross2d :: "real Vector2d \<Rightarrow> real Vector2d \<Rightarrow> real" where
  "cross2d v rhs = x2d v * y2d rhs - y2d v * x2d rhs"

text \<open>\<^verbatim>\<open>double magnitude2() const { return x*x + y*y; }\<close>\<close>

definition magnitude2_2d :: "real Vector2d \<Rightarrow> real" where
  "magnitude2_2d v = x2d v * x2d v + y2d v * y2d v"

text \<open>\<^verbatim>\<open>Vector2d operator*(const double rhs) const { return Vector2d(rhs*x, rhs*y); }\<close>; the free \<^verbatim>\<open>operator*(const double lhs, const Vector2d& rhs)\<close> is \<^verbatim>\<open>rhs*lhs\<close>.\<close>

definition times2d :: "real Vector2d \<Rightarrow> real \<Rightarrow> real Vector2d" where
  "times2d v rhs = \<lparr>x2d = rhs * x2d v, y2d = rhs * y2d v\<rparr>"

text \<open>\<^verbatim>\<open>Vector2d operator/(const double rhs) const { return Vector2d(x/rhs, y/rhs); }\<close>\<close>

definition divide2d :: "real Vector2d \<Rightarrow> real \<Rightarrow> real Vector2d" where
  "divide2d v rhs = \<lparr>x2d = x2d v / rhs, y2d = y2d v / rhs\<rparr>"

text \<open>\<^verbatim>\<open>Vector2d operator+(const Vector2d rhs) const { return Vector2d(x + rhs.x, y + rhs.y); }\<close>\<close>

definition plus2d :: "real Vector2d \<Rightarrow> real Vector2d \<Rightarrow> real Vector2d" where
  "plus2d v rhs = \<lparr>x2d = x2d v + x2d rhs, y2d = y2d v + y2d rhs\<rparr>"

text \<open>\<^verbatim>\<open>Vector2d operator-(const Vector2d rhs) const { return Vector2d(x - rhs.x, y - rhs.y); }\<close>\<close>

definition minus2d :: "real Vector2d \<Rightarrow> real Vector2d \<Rightarrow> real Vector2d" where
  "minus2d v rhs = \<lparr>x2d = x2d v - x2d rhs, y2d = y2d v - y2d rhs\<rparr>"

text \<open>\<^verbatim>\<open>Vector2d operator-() const { return Vector2d(-x, -y); }\<close>\<close>

definition uminus2d :: "real Vector2d \<Rightarrow> real Vector2d" where
  "uminus2d v = \<lparr>x2d = - x2d v, y2d = - y2d v\<rparr>"

text \<open>\<^verbatim>\<open>double dot(const Vector3d& rhs) const { return x*rhs.x + y*rhs.y + z*rhs.z; }\<close>\<close>

definition dot3d :: "real Vector3d \<Rightarrow> real Vector3d \<Rightarrow> real" where
  "dot3d v rhs = x3d v * x3d rhs + y3d v * y3d rhs + z3d v * z3d rhs"

text \<open>\<^verbatim>\<open>Vector3d cross(const Vector3d& rhs) const\<close>: \<^verbatim>\<open>(y*rhs.z - z*rhs.y, z*rhs.x - x*rhs.z, x*rhs.y - y*rhs.x)\<close>.\<close>

definition cross3d :: "real Vector3d \<Rightarrow> real Vector3d \<Rightarrow> real Vector3d" where
  "cross3d v rhs =
     \<lparr>x3d = y3d v * z3d rhs - z3d v * y3d rhs,
      y3d = z3d v * x3d rhs - x3d v * z3d rhs,
      z3d = x3d v * y3d rhs - y3d v * x3d rhs\<rparr>"

text \<open>\<^verbatim>\<open>double magnitude2() const { return x*x + y*y + z*z; }\<close>\<close>

definition magnitude2_3d :: "real Vector3d \<Rightarrow> real" where
  "magnitude2_3d v = x3d v * x3d v + y3d v * y3d v + z3d v * z3d v"

text \<open>\<^verbatim>\<open>Vector3d operator*(const double rhs) const { return Vector3d(rhs*x, rhs*y, rhs*z); }\<close>\<close>

definition times3d :: "real Vector3d \<Rightarrow> real \<Rightarrow> real Vector3d" where
  "times3d v rhs = \<lparr>x3d = rhs * x3d v, y3d = rhs * y3d v, z3d = rhs * z3d v\<rparr>"

text \<open>\<^verbatim>\<open>Vector3d operator/(const double rhs) const { return Vector3d(x/rhs, y/rhs, z/rhs); }\<close>\<close>

definition divide3d :: "real Vector3d \<Rightarrow> real \<Rightarrow> real Vector3d" where
  "divide3d v rhs = \<lparr>x3d = x3d v / rhs, y3d = y3d v / rhs, z3d = z3d v / rhs\<rparr>"

text \<open>\<^verbatim>\<open>Vector3d operator+(const Vector3d rhs) const\<close>, by components.\<close>

definition plus3d :: "real Vector3d \<Rightarrow> real Vector3d \<Rightarrow> real Vector3d" where
  "plus3d v rhs = \<lparr>x3d = x3d v + x3d rhs, y3d = y3d v + y3d rhs, z3d = z3d v + z3d rhs\<rparr>"

text \<open>\<^verbatim>\<open>Vector3d operator-(const Vector3d rhs) const\<close>, by components.\<close>

definition minus3d :: "real Vector3d \<Rightarrow> real Vector3d \<Rightarrow> real Vector3d" where
  "minus3d v rhs = \<lparr>x3d = x3d v - x3d rhs, y3d = y3d v - y3d rhs, z3d = z3d v - z3d rhs\<rparr>"

text \<open>\<^verbatim>\<open>Vector3d operator-() const { return Vector3d(-x, -y, -z); }\<close>\<close>

definition uminus3d :: "real Vector3d \<Rightarrow> real Vector3d" where
  "uminus3d v = \<lparr>x3d = - x3d v, y3d = - y3d v, z3d = - z3d v\<rparr>"

subsection \<open>Vertices and polytopes\<close>

text \<open>
  \<^verbatim>\<open>struct Vertex2d { Vector position; std::pair<int, int> neighbors; int comp;
  mutable int ID; mutable std::set<int> clips; ... }\<close>, and \<^verbatim>\<open>Vertex3d\<close> with
  \<^verbatim>\<open>std::vector<int> neighbors\<close>. The pair of a 2D vertex is (previous, next).
\<close>

record 'a Vertex2d =
  position2d :: "'a Vector2d"
  neighbors2d :: "int \<times> int"
  comp2d :: int
  vID2d :: int
  clips2d :: "int set"

record 'a Vertex3d =
  position3d :: "'a Vector3d"
  neighbors3d :: "int list"
  comp3d :: int
  vID3d :: int
  clips3d :: "int set"

text \<open>
  The constructors \<^verbatim>\<open>Vertex2d(const Vector& pos, const int c)\<close> and
  \<^verbatim>\<open>Vertex3d(const Vector& pos, const int c)\<close>:
  \<^verbatim>\<open>position(pos), neighbors(), comp(c), ID(-1), clips()\<close>.
\<close>

definition Vertex2d_new :: "'a Vector2d \<Rightarrow> int \<Rightarrow> 'a Vertex2d" where
  "Vertex2d_new pos c =
     \<lparr>position2d = pos, neighbors2d = (0, 0), comp2d = c, vID2d = - 1, clips2d = {}\<rparr>"

definition Vertex3d_new :: "'a Vector3d \<Rightarrow> int \<Rightarrow> 'a Vertex3d" where
  "Vertex3d_new pos c =
     \<lparr>position3d = pos, neighbors3d = [], comp3d = c, vID3d = - 1, clips3d = {}\<rparr>"

text \<open>\<^verbatim>\<open>typedef std::vector<Vertex2d> Polygon;\<close> and \<^verbatim>\<open>typedef std::vector<Vertex3d> Polyhedron;\<close>\<close>

type_synonym Polygon = "real Vertex2d list"

type_synonym Polyhedron = "real Vertex3d list"

section \<open>The polygon and polyhedron methods\<close>

text \<open>
  The header declares \<^verbatim>\<open>clipPolygon\<close>, \<^verbatim>\<open>clipPolyhedron\<close>, \<^verbatim>\<open>moments\<close>,
  \<^verbatim>\<open>extractFaces\<close> and \<^verbatim>\<open>collapseDegenerates\<close>; their bodies are not among the source
  files. The definitions of this section follow the specification (sections 3 and 4),
  step by step. A neighbour index outside the vertex sequence is outside the input
  constraints of the specification; the definitions test the range before every read and
  skip what is out of range. A walk along the boundary is bounded by the number of
  vertices (2D) or of directed edges (3D), which a closed boundary never exceeds.
\<close>

subsection \<open>Classification against a plane\<close>

text \<open>
  Modelled from the spec: the signed distance \<^verbatim>\<open>compare(p) = normal . p + dist\<close> of a
  point to a plane (section 3, Plane), which the header does not declare.
\<close>

definition compare2d :: "real Plane2d \<Rightarrow> real Vector2d \<Rightarrow> real" where
  "compare2d P p = dot2d (normal2d P) p + dist2d P"

text \<open>Modelled from the spec: the signed distance \<^verbatim>\<open>compare(p) = normal . p + dist\<close> to a plane in 3D (section 3, Plane); the header declares no such function.\<close>

definition compare3d :: "real Plane3d \<Rightarrow> real Vector3d \<Rightarrow> real" where
  "compare3d P p = dot3d (normal3d P) p + dist3d P"

text \<open>
  Modelled from the spec: a vertex is live iff its \<^verbatim>\<open>comp\<close> is not negative (section 3);
  the header has no such predicate.
\<close>

definition live2d :: "'a Vertex2d \<Rightarrow> bool" where
  "live2d v = (0 \<le> comp2d v)"

text \<open>Modelled from the spec: a 3D vertex is live iff its \<^verbatim>\<open>comp\<close> is not negative (section 3); the header has no such predicate.\<close>

definition live3d :: "'a Vertex3d \<Rightarrow> bool" where
  "live3d v = (0 \<le> comp3d v)"

text \<open>
  Modelled from the spec: step 1 of the clipper (section 4.2), which is not in the header.
  \<^verbatim>\<open>comp = 1\<close> if \<^verbatim>\<open>d > 0\<close>, \<^verbatim>\<open>comp = -1\<close> if \<^verbatim>\<open>d < 0\<close>, \<^verbatim>\<open>comp = 0\<close> if \<^verbatim>\<open>d == 0\<close>.
\<close>

definition classify :: "real \<Rightarrow> int" where
  "classify d = (if 0 < d then 1 else if d < 0 then - 1 else 0)"

text \<open>Modelled from the spec: a neighbour index refers to a vertex of the sequence, which is indexed from 0 (section 3, Polygon / Polyhedron); the header has no such test.\<close>

definition in_range :: "'a list \<Rightarrow> int \<Rightarrow> bool" where
  "in_range poly i = (0 \<le> i \<and> i < int (length poly))"

text \<open>
  Modelled from the spec: the classification of the vertex that an index refers to, for a
  live vertex in range (the clipper of the header is not in the sources): above is
  \<^verbatim>\<open>comp == 1\<close>, below is \<^verbatim>\<open>comp == -1\<close>.
\<close>

definition above2d :: "real Plane2d \<Rightarrow> Polygon \<Rightarrow> int \<Rightarrow> bool" where
  "above2d P poly i =
     (in_range poly i \<and> live2d (poly ! nat i) \<and>
      classify (compare2d P (position2d (poly ! nat i))) = 1)"

text \<open>Modelled from the spec: an index of a live vertex below the plane, \<^verbatim>\<open>comp == -1\<close> (section 4.2, step 1); the clipper is not in the sources.\<close>

definition below2d :: "real Plane2d \<Rightarrow> Polygon \<Rightarrow> int \<Rightarrow> bool" where
  "below2d P poly i =
     (in_range poly i \<and> live2d (poly ! nat i) \<and>
      classify (compare2d P (position2d (poly ! nat i))) = - 1)"

text \<open>Modelled from the spec: an index of a live 3D vertex above the plane, \<^verbatim>\<open>comp == 1\<close> (section 4.2, step 1); the clipper is not in the sources.\<close>

definition above3d :: "real Plane3d \<Rightarrow> Polyhedron \<Rightarrow> int \<Rightarrow> bool" where
  "above3d P poly i =
     (in_range poly i \<and> live3d (poly ! nat i) \<and>
      classify (compare3d P (position3d (poly ! nat i))) = 1)"

text \<open>Modelled from the spec: an index of a live 3D vertex below the plane, \<^verbatim>\<open>comp == -1\<close> (section 4.2, step 1); the clipper is not in the sources.\<close>

definition below3d :: "real Plane3d \<Rightarrow> Polyhedron \<Rightarrow> int \<Rightarrow> bool" where
  "below3d P poly i =
     (in_range poly i \<and> live3d (poly ! nat i) \<and>
      classify (compare3d P (position3d (poly ! nat i))) = - 1)"

text \<open>
  Modelled from the spec: step 1 writes the classification into the live vertices; a dead
  slot is ignored.
\<close>

definition classified2d :: "real Plane2d \<Rightarrow> Polygon \<Rightarrow> Polygon" where
  "classified2d P poly =
     map (\<lambda>v. if live2d v then v\<lparr>comp2d := classify (compare2d P (position2d v))\<rparr> else v) poly"

text \<open>Modelled from the spec: step 1 in 3D writes the classification into the live vertices (section 4.2); the clipper is not in the sources.\<close>

definition classified3d :: "real Plane3d \<Rightarrow> Polyhedron \<Rightarrow> Polyhedron" where
  "classified3d P poly =
     map (\<lambda>v. if live3d v then v\<lparr>comp3d := classify (compare3d P (position3d v))\<rparr> else v) poly"

subsection \<open>Clipping a polygon by one plane\<close>

text \<open>
  Modelled from the spec: the pair of a 2D vertex is (prev, next) (section 3). The
  neighbour of a 2D vertex in a slot of its pair: slot 0 is \<^verbatim>\<open>neighbors.first\<close>
  (previous), slot 1 is \<^verbatim>\<open>neighbors.second\<close> (next).
\<close>

definition nbr2d :: "'a Vertex2d \<Rightarrow> nat \<Rightarrow> int" where
  "nbr2d v s = (if s = 0 then fst (neighbors2d v) else snd (neighbors2d v))"

text \<open>
  Modelled from the spec: step 3 of the clipper (section 4.2; \<^verbatim>\<open>clipPolygon\<close> is only
  declared). The descending directed edges \<open>a \<rightarrow> b\<close> among live vertices,
  \<^verbatim>\<open>comp(a) == 1\<close> and \<^verbatim>\<open>comp(b) == -1\<close>, in the order of the vertices and of their slots;
  a directed edge is a vertex and one of its neighbour slots.
\<close>

definition descending_edges2d :: "real Plane2d \<Rightarrow> Polygon \<Rightarrow> (nat \<times> nat) list" where
  "descending_edges2d P poly =
     concat (map (\<lambda>a. map (\<lambda>s. (a, s))
                    (filter (\<lambda>s. above2d P poly (int a) \<and> below2d P poly (nbr2d (poly ! a) s))
                       [0, 1]))
               [0..<length poly])"

text \<open>
  Modelled from the spec: the parameter \<^verbatim>\<open>t = d_a / (d_a - d_b)\<close> of the new vertex on a
  cut edge (section 4.2, step 3); the clipper is not in the sources.
\<close>

definition cut_parameter :: "real \<Rightarrow> real \<Rightarrow> real" where
  "cut_parameter da db = da / (da - db)"

text \<open>Modelled from the spec: the position of the new vertex of a cut edge in 2D (section 4.2, step 3), \<^verbatim>\<open>a.pos + t (b.pos - a.pos)\<close>; the clipper is not in the sources.\<close>

definition interpolate2d :: "real Plane2d \<Rightarrow> real Vector2d \<Rightarrow> real Vector2d \<Rightarrow> real Vector2d" where
  "interpolate2d P pa pb =
     plus2d pa (times2d (minus2d pb pa) (cut_parameter (compare2d P pa) (compare2d P pb)))"

text \<open>
  Modelled from the spec: the new vertex of a descending edge (step 3): the interpolated
  position, \<^verbatim>\<open>comp = 1\<close>, \<^verbatim>\<open>clips\<close> the union of both ends' and of the plane's ID,
  \<^verbatim>\<open>id = -1\<close> (the value the constructor of the header gives); its adjacency is set by the
  rewiring.
\<close>

definition cut_vertex2d :: "real Plane2d \<Rightarrow> Polygon \<Rightarrow> nat \<times> nat \<Rightarrow> real Vertex2d" where
  "cut_vertex2d P poly e =
     (let va = poly ! fst e; vb = poly ! nat (nbr2d va (snd e))
      in (Vertex2d_new (interpolate2d P (position2d va) (position2d vb)) 1)
           \<lparr>clips2d := clips2d va \<union> clips2d vb \<union> {pID2d P}\<rparr>)"

text \<open>
  Modelled from the spec: the walk of step 4a, along \<^verbatim>\<open>next\<close> from the removed vertex
  \<open>b\<close> up to the first live vertex with \<^verbatim>\<open>comp == 1\<close>.
\<close>

fun walk_next2d :: "real Plane2d \<Rightarrow> Polygon \<Rightarrow> nat \<Rightarrow> int \<Rightarrow> int option" where
  "walk_next2d P poly 0 i = None"
| "walk_next2d P poly (Suc fuel) i =
     (if above2d P poly i then Some i
      else if in_range poly i then walk_next2d P poly fuel (snd (neighbors2d (poly ! nat i)))
      else None)"

text \<open>
  Modelled from the spec: locating a new vertex created before, or a vertex in a
  neighbour list (section 4.2, steps 4a and 4b): the position of the first occurrence of
  an element in a list.
\<close>

fun index_of :: "'a \<Rightarrow> 'a list \<Rightarrow> nat option" where
  "index_of y [] = None"
| "index_of y (x # xs) = (if x = y then Some 0 else map_option Suc (index_of y xs))"

text \<open>Modelled from the spec: the assignment \<^verbatim>\<open>w.neighbors = (p, n)\<close> of step 4a to the vertex in slot \<open>i\<close> of the sequence; the clipper is not in the sources.\<close>

definition set_neighbors2d :: "nat \<Rightarrow> int \<times> int \<Rightarrow> Polygon \<Rightarrow> Polygon" where
  "set_neighbors2d i ns poly = poly[i := (poly ! i)\<lparr>neighbors2d := ns\<rparr>]"

text \<open>Modelled from the spec: the assignment of a new previous vertex in step 4a (\<^verbatim>\<open>a'.prev = w_in\<close>); the clipper is not in the sources.\<close>

definition set_prev2d :: "nat \<Rightarrow> int \<Rightarrow> Polygon \<Rightarrow> Polygon" where
  "set_prev2d i p poly = poly[i := (poly ! i)\<lparr>neighbors2d := (p, snd (neighbors2d (poly ! i)))\<rparr>]"

text \<open>Modelled from the spec: the assignment of a new next vertex in step 4a (the \<^verbatim>\<open>next\<close> of \<open>a\<close> is redirected to \<open>w_out\<close>); the clipper is not in the sources.\<close>

definition set_next2d :: "nat \<Rightarrow> int \<Rightarrow> Polygon \<Rightarrow> Polygon" where
  "set_next2d i n poly = poly[i := (poly ! i)\<lparr>neighbors2d := (fst (neighbors2d (poly ! i)), n)\<rparr>]"

text \<open>
  Modelled from the spec: the splice of step 4a for the \<open>k\<close>-th descending edge, when it
  is an edge \<open>a \<rightarrow> b\<close> along \<^verbatim>\<open>next\<close> with new vertex \<open>w_out\<close>. The walk from \<open>b\<close> finds
  \<open>a'\<close>; the new vertex \<open>w_in\<close> is the one of the edge between \<open>a'\<close> and its previous
  vertex. Then \<^verbatim>\<open>a.next = w_out\<close>, \<^verbatim>\<open>w_out.neighbors = (a, w_in)\<close>,
  \<^verbatim>\<open>w_in.neighbors = (w_out, a')\<close> and \<^verbatim>\<open>a'.prev = w_in\<close>. Where the walk finds no such
  edge the specification names no partner, and nothing is spliced. \<open>poly\<close> is the polygon
  before the clip, \<open>cur\<close> the sequence being rewired.
\<close>

definition splice2d ::
  "real Plane2d \<Rightarrow> Polygon \<Rightarrow> (nat \<times> nat) list \<Rightarrow> nat \<Rightarrow> Polygon \<Rightarrow> Polygon" where
  "splice2d P poly cuts k cur =
     (let a = fst (cuts ! k) in
      if snd (cuts ! k) = 1 then
        (case walk_next2d P poly (length poly) (snd (neighbors2d (poly ! a))) of
           None \<Rightarrow> cur
         | Some a' \<Rightarrow>
             (case index_of (nat a', 0) cuts of
                None \<Rightarrow> cur
              | Some k' \<Rightarrow>
                  (let wout = length poly + k; win = length poly + k'
                   in set_prev2d (nat a') (int win)
                        (set_neighbors2d win (int wout, a')
                           (set_neighbors2d wout (int a, int win)
                              (set_next2d a (int wout) cur))))))
      else cur)"

text \<open>Modelled from the spec: step 4a as a whole, the splice of every descending edge in the order of the list; the clipper is not in the sources.\<close>

definition rewire2d :: "real Plane2d \<Rightarrow> Polygon \<Rightarrow> (nat \<times> nat) list \<Rightarrow> Polygon \<Rightarrow> Polygon" where
  "rewire2d P poly cuts cur = fold (splice2d P poly cuts) [0..<length cuts] cur"

text \<open>
  Modelled from the spec: one plane of \<^verbatim>\<open>clipPolygon\<close> (section 4.2, steps 1 to 5); the
  header only declares \<^verbatim>\<open>clipPolygon\<close>. Step 2: if all live vertices have \<^verbatim>\<open>comp >= 0\<close>
  the polygon is unchanged; if all have \<^verbatim>\<open>comp <= 0\<close> every live vertex is removed.
  Otherwise the live vertices take their classification (the vertices below become
  tombstones, whose slots remain), the new vertices are appended in the order of the
  descending edges, and the adjacency is rewired.
\<close>

definition clipPolygon1 :: "real Plane2d \<Rightarrow> Polygon \<Rightarrow> Polygon" where
  "clipPolygon1 P poly =
     (if list_all (\<lambda>v. 0 \<le> classify (compare2d P (position2d v))) (filter live2d poly) then poly
      else if list_all (\<lambda>v. classify (compare2d P (position2d v)) \<le> 0) (filter live2d poly)
      then map (\<lambda>v. if live2d v then v\<lparr>comp2d := - 1\<rparr> else v) poly
      else rewire2d P poly (descending_edges2d P poly)
             (classified2d P poly @ map (cut_vertex2d P poly) (descending_edges2d P poly)))"

text \<open>
  Modelled from the spec: \<^verbatim>\<open>clipPolygon(poly, planes)\<close> iterates the planes in the order
  given (section 4.2); the header only declares it.
\<close>

fun clipPolygon :: "Polygon \<Rightarrow> real Plane2d list \<Rightarrow> Polygon" where
  "clipPolygon poly [] = poly"
| "clipPolygon poly (P # planes) = clipPolygon (clipPolygon1 P poly) planes"

subsection \<open>Faces and moments of a polygon\<close>

text \<open>
  Modelled from the spec: the walk along \<^verbatim>\<open>next\<close> from a vertex until the start is
  reached again (sections 4.3 and 4.5), as the list of the indices passed.
\<close>

fun boundary_from :: "Polygon \<Rightarrow> nat \<Rightarrow> int \<Rightarrow> int \<Rightarrow> int list" where
  "boundary_from poly 0 start i = []"
| "boundary_from poly (Suc fuel) start i =
     (if in_range poly i then
        i # (if snd (neighbors2d (poly ! nat i)) = start then []
             else boundary_from poly fuel start (snd (neighbors2d (poly ! nat i))))
      else [])"

text \<open>
  Modelled from the spec: \<^verbatim>\<open>extractFaces\<close> in 2D (section 4.5; only declared in the
  header): a loop from every live vertex that no earlier loop has visited.
\<close>

fun extract_loops2d :: "Polygon \<Rightarrow> nat list \<Rightarrow> int list \<Rightarrow> int list list" where
  "extract_loops2d poly [] visited = []"
| "extract_loops2d poly (i # rest) visited =
     (if live2d (poly ! i) \<and> int i \<notin> set visited then
        boundary_from poly (length poly) (int i) (int i)
          # extract_loops2d poly rest (boundary_from poly (length poly) (int i) (int i) @ visited)
      else extract_loops2d poly rest visited)"

text \<open>Modelled from the spec: \<^verbatim>\<open>extractFaces(poly)\<close> for a polygon (section 4.5; only declared in the header), the loops from the vertices in the order of their indices.\<close>

definition extractFaces2d :: "Polygon \<Rightarrow> int list list" where
  "extractFaces2d poly = extract_loops2d poly [0..<length poly] []"

text \<open>
  Modelled from the spec: \<^verbatim>\<open>moments\<close> in 2D (section 4.3; only declared in the header).
  The walk starts at the first live vertex, whose position is the reference point \<open>p0\<close>;
  an edge \<open>(p_i, p_j)\<close> contributes \<^verbatim>\<open>0.5 cross(p_i - p0, p_j - p0)\<close> to the zeroth moment
  and \<^verbatim>\<open>(1/3) (p_i + p_j + p0)\<close> times that contribution to the first. A polygon with no
  live vertex has moments zero.
\<close>

definition edge_moment2d ::
  "real Vector2d \<Rightarrow> real \<times> real Vector2d \<Rightarrow> real Vector2d \<times> real Vector2d \<Rightarrow> real \<times> real Vector2d" where
  "edge_moment2d p0 acc e =
     (let c = 0.5 * cross2d (minus2d (fst e) p0) (minus2d (snd e) p0)
      in (fst acc + c,
          plus2d (snd acc) (times2d (times2d (plus2d (plus2d (fst e) (snd e)) p0) (1 / 3)) c)))"

text \<open>Modelled from the spec: \<^verbatim>\<open>moments(poly)\<close> for a polygon (section 4.3; only declared in the header): the sum of the edge contributions along the boundary walk from the first live vertex, and zero for a polygon with no live vertex.\<close>

definition moments2d :: "Polygon \<Rightarrow> real \<times> real Vector2d" where
  "moments2d poly =
     (case List.find (\<lambda>i. live2d (poly ! i)) [0..<length poly] of
        None \<Rightarrow> (0, \<lparr>x2d = 0, y2d = 0\<rparr>)
      | Some s \<Rightarrow>
          (let pts = map (\<lambda>i. position2d (poly ! nat i))
                       (boundary_from poly (length poly) (int s) (int s))
           in foldl (edge_moment2d (position2d (poly ! s))) (0, \<lparr>x2d = 0, y2d = 0\<rparr>)
                (zip pts (rotate1 pts))))"

subsection \<open>Clipping a polyhedron by one plane\<close>

text \<open>
  Modelled from the spec: step 3 of the clipper in 3D (section 4.2; \<^verbatim>\<open>clipPolyhedron\<close> is
  only declared). A directed edge is a vertex \<open>a\<close> and a slot \<open>j\<close> of its neighbour list;
  it is descending when \<open>a\<close> is above and the neighbour in that slot is below.
\<close>

definition descending_edges3d :: "real Plane3d \<Rightarrow> Polyhedron \<Rightarrow> (nat \<times> nat) list" where
  "descending_edges3d P poly =
     concat (map (\<lambda>a. map (\<lambda>j. (a, j))
                    (filter (\<lambda>j. above3d P poly (int a) \<and> below3d P poly (neighbors3d (poly ! a) ! j))
                       [0..<length (neighbors3d (poly ! a))]))
               [0..<length poly])"

text \<open>
  Modelled from the spec: the position of a new vertex in 3D (step 3), by the same linear
  interpolation.
\<close>

definition interpolate3d :: "real Plane3d \<Rightarrow> real Vector3d \<Rightarrow> real Vector3d \<Rightarrow> real Vector3d" where
  "interpolate3d P pa pb =
     plus3d pa (times3d (minus3d pb pa) (cut_parameter (compare3d P pa) (compare3d P pb)))"

text \<open>
  Modelled from the spec: the new vertex \<open>w\<close> of a descending edge \<open>a \<rightarrow> b\<close> in 3D (step 3
  and step 4b, item 1): \<^verbatim>\<open>comp = 1\<close>, \<^verbatim>\<open>id = -1\<close>, \<^verbatim>\<open>clips\<close> the union, and
  \<^verbatim>\<open>w.neighbors[0] = a\<close>.
\<close>

definition cut_vertex3d :: "real Plane3d \<Rightarrow> Polyhedron \<Rightarrow> nat \<times> nat \<Rightarrow> real Vertex3d" where
  "cut_vertex3d P poly e =
     (let va = poly ! fst e; vb = poly ! nat (neighbors3d va ! snd e)
      in (Vertex3d_new (interpolate3d P (position3d va) (position3d vb)) 1)
           \<lparr>neighbors3d := [int (fst e)], clips3d := clips3d va \<union> clips3d vb \<union> {pID3d P}\<rparr>)"

text \<open>
  Modelled from the spec: the rule of the face walk (section 4.5): arriving at a vertex
  from \<open>u\<close>, the next vertex is the neighbour immediately after \<open>u\<close> in the cyclic list
  \<open>ns\<close> of the vertex. \<open>neighbor_before\<close> walks the same face in the other direction.
\<close>

definition neighbor_after :: "int list \<Rightarrow> int \<Rightarrow> int option" where
  "neighbor_after ns u = map_option (\<lambda>k. ns ! ((k + 1) mod length ns)) (index_of u ns)"

text \<open>Modelled from the spec: the same rule walked backwards (section 4.2, step 4b: the adjacent new vertex around the other face of the edge): the neighbour immediately before \<open>u\<close> in the cyclic list.\<close>

definition neighbor_before :: "int list \<Rightarrow> int \<Rightarrow> int option" where
  "neighbor_before ns u =
     map_option (\<lambda>k. ns ! ((k + length ns - 1) mod length ns)) (index_of u ns)"

text \<open>
  Modelled from the spec: the walk of step 4b, item 2: from the edge \<open>u \<rightarrow> v\<close> through
  the removed vertices to the next ascending exit, the first vertex with \<^verbatim>\<open>comp == 1\<close>.
  The result is the exit edge, as the vertex above and the vertex the walk came from.
\<close>

fun walk_face3d ::
  "(int list \<Rightarrow> int \<Rightarrow> int option) \<Rightarrow> real Plane3d \<Rightarrow> Polyhedron \<Rightarrow> nat \<Rightarrow> int \<Rightarrow> int
     \<Rightarrow> (int \<times> int) option" where
  "walk_face3d step P poly 0 u v = None"
| "walk_face3d step P poly (Suc fuel) u v =
     (if above3d P poly v then Some (v, u)
      else if in_range poly v then
        (case step (neighbors3d (poly ! nat v)) u of
           None \<Rightarrow> None
         | Some w \<Rightarrow> walk_face3d step P poly fuel v w)
      else None)"

text \<open>
  Modelled from the spec: the number of directed edges of a polyhedron (section 3), which
  bounds every face walk.
\<close>

definition edge_count3d :: "Polyhedron \<Rightarrow> nat" where
  "edge_count3d poly = sum_list (map (\<lambda>v. length (neighbors3d v)) poly)"

text \<open>
  Modelled from the spec: the new vertex next to the one of the descending edge
  \<open>(a, j)\<close> on the cut, found by a face walk (step 4b, item 2): the walk leaves towards
  the removed end of the edge and exits on an ascending edge \<open>b' \<rightarrow> a'\<close>; the partner is
  the new vertex of the descending edge from \<open>a'\<close> to \<open>b'\<close>.
\<close>

definition partner3d ::
  "(int list \<Rightarrow> int \<Rightarrow> int option) \<Rightarrow> real Plane3d \<Rightarrow> Polyhedron \<Rightarrow> (nat \<times> nat) list
     \<Rightarrow> nat \<times> nat \<Rightarrow> nat option" where
  "partner3d step P poly cuts e =
     (case walk_face3d step P poly (edge_count3d poly) (int (fst e))
             (neighbors3d (poly ! fst e) ! snd e) of
        None \<Rightarrow> None
      | Some (a', b') \<Rightarrow>
          (case index_of b' (neighbors3d (poly ! nat a')) of
             None \<Rightarrow> None
           | Some j' \<Rightarrow> map_option (\<lambda>k'. length poly + k') (index_of (nat a', j') cuts)))"

text \<open>Modelled from the spec: the assignment of one neighbour slot of a vertex (section 4.2, step 4b, item 1); the clipper is not in the sources.\<close>

definition set_slot3d :: "nat \<Rightarrow> nat \<Rightarrow> int \<Rightarrow> Polyhedron \<Rightarrow> Polyhedron" where
  "set_slot3d i j w poly = poly[i := (poly ! i)\<lparr>neighbors3d := (neighbors3d (poly ! i))[j := w]\<rparr>]"

text \<open>Modelled from the spec: the assignment of the neighbour list of a vertex (section 4.2, step 4b, item 2); the clipper is not in the sources.\<close>

definition set_neighbors3d :: "nat \<Rightarrow> int list \<Rightarrow> Polyhedron \<Rightarrow> Polyhedron" where
  "set_neighbors3d i ns poly = poly[i := (poly ! i)\<lparr>neighbors3d := ns\<rparr>]"

text \<open>
  Modelled from the spec: step 4b, item 1, for the \<open>k\<close>-th descending edge \<open>(a, j)\<close>: the
  slot of \<open>a\<close> that pointed to \<open>b\<close> points to the new vertex instead.
\<close>

definition redirect3d :: "Polyhedron \<Rightarrow> (nat \<times> nat) list \<Rightarrow> nat \<Rightarrow> Polyhedron \<Rightarrow> Polyhedron" where
  "redirect3d poly cuts k cur =
     set_slot3d (fst (cuts ! k)) (snd (cuts ! k)) (int (length poly + k)) cur"

text \<open>
  Modelled from the spec: step 4b, item 2, for the \<open>k\<close>-th descending edge: the two
  remaining neighbour slots of its new vertex are the adjacent new vertex along the face
  of the edge and the adjacent new vertex around the other face of the edge. Where a walk
  finds no new vertex the specification names no neighbour, and the vertex keeps its one
  slot.
\<close>

definition link3d ::
  "real Plane3d \<Rightarrow> Polyhedron \<Rightarrow> (nat \<times> nat) list \<Rightarrow> nat \<Rightarrow> Polyhedron \<Rightarrow> Polyhedron" where
  "link3d P poly cuts k cur =
     (case (partner3d neighbor_after P poly cuts (cuts ! k),
            partner3d neighbor_before P poly cuts (cuts ! k)) of
        (Some f, Some g) \<Rightarrow>
          set_neighbors3d (length poly + k) [int (fst (cuts ! k)), int f, int g] cur
      | _ \<Rightarrow> cur)"

text \<open>Modelled from the spec: step 4b as a whole: item 1 for every descending edge, then item 2 for every descending edge, in the order of the list; the clipper is not in the sources.\<close>

definition rewire3d ::
  "real Plane3d \<Rightarrow> Polyhedron \<Rightarrow> (nat \<times> nat) list \<Rightarrow> Polyhedron \<Rightarrow> Polyhedron" where
  "rewire3d P poly cuts cur =
     fold (link3d P poly cuts) [0..<length cuts]
       (fold (redirect3d poly cuts) [0..<length cuts] cur)"

text \<open>
  Modelled from the spec: one plane of \<^verbatim>\<open>clipPolyhedron\<close> (section 4.2, steps 1 to 5);
  the header only declares \<^verbatim>\<open>clipPolyhedron\<close>. The early exits of step 2 are those of
  the polygon.
\<close>

definition clipPolyhedron1 :: "real Plane3d \<Rightarrow> Polyhedron \<Rightarrow> Polyhedron" where
  "clipPolyhedron1 P poly =
     (if list_all (\<lambda>v. 0 \<le> classify (compare3d P (position3d v))) (filter live3d poly) then poly
      else if list_all (\<lambda>v. classify (compare3d P (position3d v)) \<le> 0) (filter live3d poly)
      then map (\<lambda>v. if live3d v then v\<lparr>comp3d := - 1\<rparr> else v) poly
      else rewire3d P poly (descending_edges3d P poly)
             (classified3d P poly @ map (cut_vertex3d P poly) (descending_edges3d P poly)))"

text \<open>
  Modelled from the spec: \<^verbatim>\<open>clipPolyhedron(poly, planes)\<close> iterates the planes in the
  order given (section 4.2); the header only declares it.
\<close>

fun clipPolyhedron :: "Polyhedron \<Rightarrow> real Plane3d list \<Rightarrow> Polyhedron" where
  "clipPolyhedron poly [] = poly"
| "clipPolyhedron poly (P # planes) = clipPolyhedron (clipPolyhedron1 P poly) planes"

subsection \<open>Faces and moments of a polyhedron\<close>

text \<open>
  Modelled from the spec: one face of \<^verbatim>\<open>extractFaces\<close> in 3D (section 4.5): from the
  directed edge \<open>u \<rightarrow> v\<close> by the rule of the face walk, until the starting edge \<open>e0\<close> is
  met again; the face is the list of the vertices the edges start from.
\<close>

fun face_walk3d :: "Polyhedron \<Rightarrow> nat \<Rightarrow> int \<times> int \<Rightarrow> int \<Rightarrow> int \<Rightarrow> int list" where
  "face_walk3d poly 0 e0 u v = []"
| "face_walk3d poly (Suc fuel) e0 u v =
     u # (if in_range poly v then
            (case neighbor_after (neighbors3d (poly ! nat v)) u of
               None \<Rightarrow> []
             | Some w \<Rightarrow> if (v, w) = e0 then [] else face_walk3d poly fuel e0 v w)
          else [])"

text \<open>
  Modelled from the spec: the directed edges of the live vertices, in the order of the
  vertices and of their neighbour lists (section 4.5).
\<close>

definition directed_edges3d :: "Polyhedron \<Rightarrow> (int \<times> int) list" where
  "directed_edges3d poly =
     concat (map (\<lambda>a. if live3d (poly ! a) then map (\<lambda>b. (int a, b)) (neighbors3d (poly ! a)) else [])
               [0..<length poly])"

text \<open>
  Modelled from the spec: \<^verbatim>\<open>extractFaces\<close> in 3D (section 4.5; only declared in the
  header): a face from every directed edge not yet visited, the edges of the face being
  marked as visited.
\<close>

fun extract_faces3d :: "Polyhedron \<Rightarrow> (int \<times> int) list \<Rightarrow> (int \<times> int) list \<Rightarrow> int list list" where
  "extract_faces3d poly [] visited = []"
| "extract_faces3d poly (e # rest) visited =
     (if e \<in> set visited then extract_faces3d poly rest visited
      else
        face_walk3d poly (edge_count3d poly) e (fst e) (snd e)
          # extract_faces3d poly rest
              (zip (face_walk3d poly (edge_count3d poly) e (fst e) (snd e))
                   (rotate1 (face_walk3d poly (edge_count3d poly) e (fst e) (snd e))) @ visited))"

text \<open>Modelled from the spec: \<^verbatim>\<open>extractFaces(poly)\<close> for a polyhedron (section 4.5; only declared in the header), from the directed edges of the live vertices in order.\<close>

definition extractFaces3d :: "Polyhedron \<Rightarrow> int list list" where
  "extractFaces3d poly = extract_faces3d poly (directed_edges3d poly) []"

text \<open>
  Modelled from the spec: the contribution of one triangle \<open>(p0, p_i, p_j)\<close> of a face
  fan to the moments in 3D (section 4.3): \<^verbatim>\<open>v = (1/6) p0 . (p_i x p_j)\<close> to the zeroth
  moment and \<^verbatim>\<open>(v/4) (p0 + p_i + p_j)\<close> to the first.
\<close>

definition triangle_moment3d ::
  "real Vector3d \<Rightarrow> real \<times> real Vector3d \<Rightarrow> real Vector3d \<times> real Vector3d \<Rightarrow> real \<times> real Vector3d" where
  "triangle_moment3d p0 acc e =
     (let v = 1 / 6 * dot3d p0 (cross3d (fst e) (snd e))
      in (fst acc + v,
          plus3d (snd acc) (times3d (plus3d (plus3d p0 (fst e)) (snd e)) (v / 4))))"

text \<open>
  Modelled from the spec: the moments of one face, fanned around its first vertex
  (section 4.3).
\<close>

definition face_moment3d :: "Polyhedron \<Rightarrow> real \<times> real Vector3d \<Rightarrow> int list \<Rightarrow> real \<times> real Vector3d" where
  "face_moment3d poly acc face =
     (case map (\<lambda>i. position3d (poly ! nat i)) face of
        [] \<Rightarrow> acc
      | p0 # pts \<Rightarrow> foldl (triangle_moment3d p0) acc (zip pts (tl pts)))"

text \<open>
  Modelled from the spec: \<^verbatim>\<open>moments\<close> in 3D (section 4.3; only declared in the header):
  the sum over the extracted faces.
\<close>

definition moments3d :: "Polyhedron \<Rightarrow> real \<times> real Vector3d" where
  "moments3d poly = foldl (face_moment3d poly) (0, \<lparr>x3d = 0, y3d = 0, z3d = 0\<rparr>) (extractFaces3d poly)"

subsection \<open>The fields of a vertex that a rewiring leaves alone\<close>

text \<open>Position, \<^verbatim>\<open>comp\<close>, \<^verbatim>\<open>ID\<close> and \<^verbatim>\<open>clips\<close> of a 2D vertex: all but its adjacency.\<close>

definition core2d :: "real Vertex2d \<Rightarrow> real Vector2d \<times> int \<times> int \<times> int set" where
  "core2d v = (position2d v, comp2d v, vID2d v, clips2d v)"

text \<open>Position, \<^verbatim>\<open>comp\<close>, \<^verbatim>\<open>ID\<close> and \<^verbatim>\<open>clips\<close> of a 3D vertex: all but its adjacency.\<close>

definition core3d :: "real Vertex3d \<Rightarrow> real Vector3d \<times> int \<times> int \<times> int set" where
  "core3d v = (position3d v, comp3d v, vID3d v, clips3d v)"

subsection \<open>The polytopes of the concrete scenarios\<close>

text \<open>
  The unit square of scenario 1 of the specification (section 8): positions
  \<open>(0,0), (1,0), (1,1), (0,1)\<close>, adjacency \<open>[(3,1), (0,2), (1,3), (2,0)]\<close>, every vertex
  as the initializer leaves it (\<^verbatim>\<open>comp = 1\<close>, \<^verbatim>\<open>id = -1\<close>, no clips).
\<close>

definition unit_square :: Polygon where
  "unit_square =
     [(Vertex2d_new \<lparr>x2d = 0, y2d = 0\<rparr> 1)\<lparr>neighbors2d := (3, 1)\<rparr>,
      (Vertex2d_new \<lparr>x2d = 1, y2d = 0\<rparr> 1)\<lparr>neighbors2d := (0, 2)\<rparr>,
      (Vertex2d_new \<lparr>x2d = 1, y2d = 1\<rparr> 1)\<lparr>neighbors2d := (1, 3)\<rparr>,
      (Vertex2d_new \<lparr>x2d = 0, y2d = 1\<rparr> 1)\<lparr>neighbors2d := (2, 0)\<rparr>]"

text \<open>The plane of scenario 2: \<^verbatim>\<open>normal = (1,0)\<close>, \<^verbatim>\<open>dist = -0.5\<close>, here with the ID 7.\<close>

definition half_plane :: "real Plane2d" where
  "half_plane = \<lparr>dist2d = - 0.5, normal2d = \<lparr>x2d = 1, y2d = 0\<rparr>, pID2d = 7\<rparr>"

text \<open>
  The tetrahedron of scenario 5, \<open>(0,0,0), (1,0,0), (0,1,0), (0,0,1)\<close>, with the neighbour
  lists in the orientation of section 3: every face walk runs counter-clockwise seen from
  outside.
\<close>

definition tetrahedron :: Polyhedron where
  "tetrahedron =
     [(Vertex3d_new \<lparr>x3d = 0, y3d = 0, z3d = 0\<rparr> 1)\<lparr>neighbors3d := [1, 2, 3]\<rparr>,
      (Vertex3d_new \<lparr>x3d = 1, y3d = 0, z3d = 0\<rparr> 1)\<lparr>neighbors3d := [0, 3, 2]\<rparr>,
      (Vertex3d_new \<lparr>x3d = 0, y3d = 1, z3d = 0\<rparr> 1)\<lparr>neighbors3d := [0, 1, 3]\<rparr>,
      (Vertex3d_new \<lparr>x3d = 0, y3d = 0, z3d = 1\<rparr> 1)\<lparr>neighbors3d := [0, 2, 1]\<rparr>]"

text \<open>A plane that keeps the part \<open>z \<ge> 1/2\<close>, with the ID 9.\<close>

definition slab_plane :: "real Plane3d" where
  "slab_plane = \<lparr>normal3d = \<lparr>x3d = 0, y3d = 0, z3d = 1\<rparr>, dist3d = - 0.5, pID3d = 9\<rparr>"

section \<open>Equality of doubles by bit pattern\<close>

lemma fraction_lt: "fraction d < 2 ^ 52"
  unfolding fraction_def using take_bit_nat_less_exp [of 52 "unat d"]
  by (simp add: unsigned_take_bit_eq)

text \<open>A pattern is its sign, its exponent field and its fraction field.\<close>

lemma double_eqI:
  assumes "sign_bit a = sign_bit b" "exponent a = exponent b" "fraction a = fraction b"
  shows "a = b"
proof (rule bit_eqI)
  fix n assume "possible_bit TYPE(double) n"
  then have n: "n < 64" by (simp add: possible_bit_word)
  have f: "take_bit 52 a = take_bit 52 b"
    using assms(3) unfolding fraction_def by (simp add: word_unat_eq_iff)
  have e: "take_bit 11 (drop_bit 52 a) = take_bit 11 (drop_bit 52 b)"
    using assms(2) unfolding exponent_def by (simp add: word_unat_eq_iff)
  consider "n < 52" | "52 \<le> n" "n < 63" | "n = 63" using n by linarith
  then show "bit a n = bit b n"
  proof cases
    case 1
    have "bit (take_bit 52 a) n = bit (take_bit 52 b) n" using f by simp
    then show ?thesis using 1 by (simp add: bit_take_bit_iff)
  next
    case 2
    have "bit (take_bit 11 (drop_bit 52 a)) (n - 52) = bit (take_bit 11 (drop_bit 52 b)) (n - 52)"
      using e by simp
    moreover have "n - 52 < 11" "52 + (n - 52) = n" using 2 by auto
    ultimately show ?thesis by (simp add: bit_take_bit_iff bit_drop_bit_eq)
  next
    case 3
    then show ?thesis using assms(1) by (simp add: sign_bit_def)
  qed
qed

text \<open>
  The magnitude, scaled by \<open>2^1075\<close>, lies in the binade of its exponent field; the
  subnormal numbers lie below every binade.
\<close>

lemma mag_normal_bounds:
  assumes "exponent d \<noteq> 0"
  shows "2 ^ (52 + exponent d) \<le> magnitude_of d * 2 ^ 1075"
    and "magnitude_of d * 2 ^ 1075 < 2 ^ (53 + exponent d)"
proof -
  have m: "magnitude_of d * 2 ^ 1075 = real (2 ^ 52 + fraction d) * 2 ^ exponent d"
    using assms by (simp add: magnitude_of_def)
  have "(2::real) ^ (52 + exponent d) = 2 ^ 52 * 2 ^ exponent d" by (simp add: power_add)
  also have "\<dots> \<le> real (2 ^ 52 + fraction d) * 2 ^ exponent d" by simp
  finally show "2 ^ (52 + exponent d) \<le> magnitude_of d * 2 ^ 1075" using m by simp
  have "real (2 ^ 52 + fraction d) < 2 ^ 53"
    using fraction_lt [of d] by simp
  then have "real (2 ^ 52 + fraction d) * 2 ^ exponent d < 2 ^ 53 * 2 ^ exponent d"
    by simp
  then show "magnitude_of d * 2 ^ 1075 < 2 ^ (53 + exponent d)"
    using m by (simp add: power_add)
qed

lemma mag_subnormal:
  assumes "exponent d = 0"
  shows "magnitude_of d * 2 ^ 1075 = real (fraction d) * 2"
  using assms by (simp add: magnitude_of_def)

lemma magnitude_of_nonneg: "0 \<le> magnitude_of d"
  by (simp add: magnitude_of_def)

lemma magnitude_of_inj:
  assumes "magnitude_of a = magnitude_of b"
  shows "exponent a = exponent b \<and> fraction a = fraction b"
proof -
  have eq: "magnitude_of a * 2 ^ 1075 = magnitude_of b * 2 ^ 1075"
    using assms by simp
  have sub: False
    if "exponent c = 0" "exponent d \<noteq> 0"
      and "magnitude_of c * 2 ^ 1075 = magnitude_of d * 2 ^ 1075" for c d
  proof -
    have "magnitude_of c * 2 ^ 1075 < 2 ^ 53"
      using fraction_lt [of c] mag_subnormal [OF that(1)] by simp
    also have "(2::real) ^ 53 \<le> 2 ^ (52 + exponent d)"
      by (rule power_increasing) (use that(2) in auto)
    also have "\<dots> \<le> magnitude_of d * 2 ^ 1075"
      by (rule mag_normal_bounds(1) [OF that(2)])
    finally show False using that(3) by simp
  qed
  have lt: False
    if "exponent c \<noteq> 0" "exponent c < exponent d"
      and "magnitude_of c * 2 ^ 1075 = magnitude_of d * 2 ^ 1075" for c d
  proof -
    have d0: "exponent d \<noteq> 0" using that(2) by simp
    have "magnitude_of c * 2 ^ 1075 < 2 ^ (53 + exponent c)"
      by (rule mag_normal_bounds(2) [OF that(1)])
    also have "(2::real) ^ (53 + exponent c) \<le> 2 ^ (52 + exponent d)"
      by (rule power_increasing) (use that(2) in auto)
    also have "\<dots> \<le> magnitude_of d * 2 ^ 1075"
      by (rule mag_normal_bounds(1) [OF d0])
    finally show False using that(3) by simp
  qed
  show ?thesis
  proof (cases "exponent a = 0")
    case a0: True
    show ?thesis
    proof (cases "exponent b = 0")
      case True
      then show ?thesis using a0 eq by (simp only: mag_subnormal) simp
    next
      case False
      then show ?thesis using sub [OF a0 False eq] by simp
    qed
  next
    case a1: False
    show ?thesis
    proof (cases "exponent b = 0")
      case True
      then show ?thesis using sub [OF True a1 eq [symmetric]] by simp
    next
      case b1: False
      have e: "exponent a = exponent b"
        using lt [OF a1 _ eq] lt [OF b1 _ eq [symmetric]] by (meson linorder_neqE_nat)
      have "real (2 ^ 52 + fraction a) * 2 ^ exponent a
          = real (2 ^ 52 + fraction b) * 2 ^ exponent b"
        using eq a1 b1 by (simp add: magnitude_of_def)
      then have "real (2 ^ 52 + fraction a) = real (2 ^ 52 + fraction b)"
        using e by simp
      then have "fraction a = fraction b" by linarith
      then show ?thesis using e by simp
    qed
  qed
qed

lemma magnitude_of_zero_iff:
  "magnitude_of d = 0 \<longleftrightarrow> exponent d = 0 \<and> fraction d = 0"
proof (cases "exponent d = 0")
  case True
  have "magnitude_of d = 0 \<longleftrightarrow> magnitude_of d * 2 ^ 1075 = 0" by simp
  also have "\<dots> \<longleftrightarrow> fraction d = 0" by (simp only: mag_subnormal [OF True]) simp
  finally show ?thesis using True by simp
next
  case False
  have "(0::real) < 2 ^ (52 + exponent d)" by simp
  also have "\<dots> \<le> magnitude_of d * 2 ^ 1075" by (rule mag_normal_bounds(1) [OF False])
  finally have "magnitude_of d \<noteq> 0" by auto
  then show ?thesis using False by simp
qed

lemma zero_fields:
  "exponent 0 = 0" "fraction 0 = 0" "\<not> sign_bit 0"
  "exponent 0x8000000000000000 = 0" "fraction 0x8000000000000000 = 0"
  "sign_bit 0x8000000000000000"
  by (simp_all add: exponent_def fraction_def sign_bit_def)

lemma iszero_iff: "iszero d \<longleftrightarrow> exponent d = 0 \<and> fraction d = 0"
proof
  assume "iszero d"
  then show "exponent d = 0 \<and> fraction d = 0"
    unfolding iszero_def using zero_fields by auto
next
  assume z: "exponent d = 0 \<and> fraction d = 0"
  show "iszero d"
  proof (cases "sign_bit d")
    case True
    then have "d = 0x8000000000000000"
      using z zero_fields by (intro double_eqI) simp_all
    then show ?thesis by (simp add: iszero_def)
  next
    case False
    then have "d = 0"
      using z zero_fields by (intro double_eqI) simp_all
    then show ?thesis by (simp add: iszero_def)
  qed
qed

lemma valof_NaN_iff: "valof d = NaN \<longleftrightarrow> isnan d"
  by (simp add: valof_def isnan_def)

text \<open>
  \<^verbatim>\<open>==\<close> on doubles in terms of bit patterns: no operand is a NaN, and the patterns are
  the same or both are zeros.
\<close>

lemma double_eq_iff:
  "double_eq a b \<longleftrightarrow> \<not> isnan a \<and> \<not> isnan b \<and> (a = b \<or> (iszero a \<and> iszero b))"
proof (cases "isnan a \<or> isnan b")
  case True
  then show ?thesis by (auto simp: double_eq_def valof_NaN_iff)
next
  case False
  then have na: "\<not> isnan a" and nb: "\<not> isnan b" by auto
  have "valof a = valof b \<longleftrightarrow> a = b \<or> (iszero a \<and> iszero b)"
  proof
    assume v: "valof a = valof b"
    show "a = b \<or> (iszero a \<and> iszero b)"
    proof (cases "exponent a = 2047")
      case True
      then have fa: "fraction a = 0" using na by (simp add: isnan_def)
      have "valof a = Infinity (sign_bit a)" using True fa by (simp add: valof_def)
      then have "exponent b = 2047 \<and> fraction b = 0 \<and> sign_bit b = sign_bit a"
        using v by (auto simp: valof_def split: if_splits)
      then have "a = b" using True fa by (intro double_eqI) simp_all
      then show ?thesis ..
    next
      case ea: False
      then have eb: "exponent b \<noteq> 2047"
        using v by (auto simp: valof_def split: if_splits)
      show ?thesis
      proof (cases "sign_bit a = sign_bit b")
        case True
        then have "magnitude_of a = magnitude_of b"
          using v ea eb by (auto simp: valof_def split: if_splits)
        then have "exponent a = exponent b \<and> fraction a = fraction b"
          by (rule magnitude_of_inj)
        then have "a = b"
          using True by (intro double_eqI) simp_all
        then show ?thesis ..
      next
        case False
        then have "magnitude_of a = - magnitude_of b"
          using v ea eb by (auto simp: valof_def split: if_splits)
        then have "magnitude_of a = 0" "magnitude_of b = 0"
          using magnitude_of_nonneg [of a] magnitude_of_nonneg [of b] by linarith+
        then show ?thesis by (simp add: iszero_iff magnitude_of_zero_iff)
      qed
    qed
  next
    assume "a = b \<or> (iszero a \<and> iszero b)"
    then show "valof a = valof b"
    proof
      assume "a = b" then show ?thesis by simp
    next
      assume "iszero a \<and> iszero b"
      then have "exponent a = 0" "fraction a = 0" "exponent b = 0" "fraction b = 0"
        by (simp_all add: iszero_iff)
      then show ?thesis by (simp add: valof_def magnitude_of_def)
    qed
  qed
  then show ?thesis using na nb by (simp add: double_eq_def valof_NaN_iff)
qed

lemma nan_fields:
  "exponent 0x7FF8000000000000 = 2047" "fraction 0x7FF8000000000000 = 2 ^ 51"
  by (simp_all add: exponent_def fraction_def)

lemma isnan_quiet: "isnan 0x7FF8000000000000"
  by (simp add: isnan_def nan_fields)

lemma isnan_zero: "\<not> isnan 0" "\<not> isnan 0x8000000000000000"
  by (simp_all add: isnan_def zero_fields)

section \<open>Claims about the operators of the header\<close>

text \<open>
  C9, as the code has it. \<^verbatim>\<open>Vector2d::operator==\<close> and \<^verbatim>\<open>Vector3d::operator==\<close> compare
  the components with \<^verbatim>\<open>==\<close> on doubles, which is not a comparison of bit patterns:
  \<open>u == v\<close> holds exactly when no component of \<open>u\<close> or \<open>v\<close> is a NaN and every pair of
  corresponding components has the same bit pattern or consists of two zeros (of either
  sign).
\<close>

theorem Vector_eq_by_components:
  "(Vector2d_eq u v \<longleftrightarrow>
      (\<not> isnan (x2d u) \<and> \<not> isnan (x2d v) \<and> (x2d u = x2d v \<or> (iszero (x2d u) \<and> iszero (x2d v)))) \<and>
      (\<not> isnan (y2d u) \<and> \<not> isnan (y2d v) \<and> (y2d u = y2d v \<or> (iszero (y2d u) \<and> iszero (y2d v))))) \<and>
   (Vector3d_eq p q \<longleftrightarrow>
      (\<not> isnan (x3d p) \<and> \<not> isnan (x3d q) \<and> (x3d p = x3d q \<or> (iszero (x3d p) \<and> iszero (x3d q)))) \<and>
      (\<not> isnan (y3d p) \<and> \<not> isnan (y3d q) \<and> (y3d p = y3d q \<or> (iszero (y3d p) \<and> iszero (y3d q)))) \<and>
      (\<not> isnan (z3d p) \<and> \<not> isnan (z3d q) \<and> (z3d p = z3d q \<or> (iszero (z3d p) \<and> iszero (z3d q)))))"
  unfolding Vector2d_eq_def Vector3d_eq_def double_eq_iff by simp

text \<open>
  C9 as stated fails on the code. A vector with a NaN component (the quiet NaN
  \<^verbatim>\<open>0x7FF8000000000000\<close>) is not equal to itself although its bit patterns are, and the
  vectors \<^verbatim>\<open>(-0.0, 0.0)\<close> and \<^verbatim>\<open>(+0.0, 0.0)\<close> are equal although their bit patterns differ;
  the same in three dimensions.
\<close>

theorem Vector_eq_bitwise_counterexample:
  "\<not> Vector2d_eq \<lparr>x2d = 0x7FF8000000000000, y2d = 0\<rparr> \<lparr>x2d = 0x7FF8000000000000, y2d = 0\<rparr> \<and>
   Vector2d_eq \<lparr>x2d = 0x8000000000000000, y2d = 0\<rparr> \<lparr>x2d = 0, y2d = 0\<rparr> \<and>
   \<lparr>x2d = 0x8000000000000000, y2d = 0\<rparr> \<noteq> \<lparr>x2d = 0 :: double, y2d = 0 :: double\<rparr> \<and>
   \<not> Vector3d_eq \<lparr>x3d = 0, y3d = 0, z3d = 0x7FF8000000000000\<rparr>
                  \<lparr>x3d = 0, y3d = 0, z3d = 0x7FF8000000000000\<rparr> \<and>
   Vector3d_eq \<lparr>x3d = 0, y3d = 0x8000000000000000, z3d = 0\<rparr> \<lparr>x3d = 0, y3d = 0, z3d = 0\<rparr> \<and>
   \<lparr>x3d = 0, y3d = 0x8000000000000000, z3d = 0\<rparr> \<noteq> \<lparr>x3d = 0 :: double, y3d = 0, z3d = 0 :: double\<rparr>"
  unfolding Vector2d_eq_def Vector3d_eq_def double_eq_iff
  by (simp add: isnan_quiet isnan_zero iszero_def)

text \<open>
  C10. \<^verbatim>\<open>Plane2d::operator==\<close> and \<^verbatim>\<open>Plane3d::operator==\<close> compare \<^verbatim>\<open>dist\<close> and
  \<^verbatim>\<open>normal\<close> with \<^verbatim>\<open>==\<close> and never read \<^verbatim>\<open>ID\<close>: the result is the conjunction of the two
  comparisons, it is the same whatever the two IDs are, and \<^verbatim>\<open>!=\<close> is its negation.
\<close>

theorem Plane_eq_ignores_ID:
  "(Plane2d_eq p q \<longleftrightarrow>
      double_eq (dist2d p) (dist2d q) \<and> Vector2d_eq (normal2d p) (normal2d q)) \<and>
   Plane2d_eq (p\<lparr>pID2d := i\<rparr>) (q\<lparr>pID2d := j\<rparr>) = Plane2d_eq p q \<and>
   Plane2d_eq \<lparr>dist2d = d, normal2d = n, pID2d = i\<rparr> \<lparr>dist2d = d', normal2d = n', pID2d = j\<rparr>
     = (double_eq d d' \<and> Vector2d_eq n n') \<and>
   Plane2d_ne p q = (\<not> Plane2d_eq p q) \<and>
   (Plane3d_eq r s \<longleftrightarrow>
      double_eq (dist3d r) (dist3d s) \<and> Vector3d_eq (normal3d r) (normal3d s)) \<and>
   Plane3d_eq (r\<lparr>pID3d := i\<rparr>) (s\<lparr>pID3d := j\<rparr>) = Plane3d_eq r s \<and>
   Plane3d_eq \<lparr>normal3d = m, dist3d = d, pID3d = i\<rparr> \<lparr>normal3d = m', dist3d = d', pID3d = j\<rparr>
     = (double_eq d d' \<and> Vector3d_eq m m') \<and>
   Plane3d_ne r s = (\<not> Plane3d_eq r s)"
  by (simp add: Plane2d_eq_def Plane2d_ne_def Plane3d_eq_def Plane3d_ne_def)

section \<open>Properties of the clipper\<close>

lemma clipPolygon_append:
  "clipPolygon poly (Ps @ Qs) = clipPolygon (clipPolygon poly Ps) Qs"
  by (induction Ps arbitrary: poly) simp_all

lemma clipPolygon_foldl:
  "clipPolygon poly Ps = foldl (\<lambda>p P. clipPolygon p [P]) poly Ps"
  by (induction Ps arbitrary: poly) simp_all

lemma clipPolyhedron_append:
  "clipPolyhedron poly (Ps @ Qs) = clipPolyhedron (clipPolyhedron poly Ps) Qs"
  by (induction Ps arbitrary: poly) simp_all

lemma clipPolyhedron_foldl:
  "clipPolyhedron poly Ps = foldl (\<lambda>p P. clipPolyhedron p [P]) poly Ps"
  by (induction Ps arbitrary: poly) simp_all

lemma classify_nonneg_iff: "0 \<le> classify d \<longleftrightarrow> 0 \<le> d"
  by (simp add: classify_def)

lemma classify_nonpos_iff: "classify d \<le> 0 \<longleftrightarrow> d \<le> 0"
  by (simp add: classify_def)

lemma classify_eq_1_iff: "classify d = 1 \<longleftrightarrow> 0 < d"
  by (simp add: classify_def)

lemma classify_eq_m1_iff: "classify d = - 1 \<longleftrightarrow> d < 0"
  by (simp add: classify_def)

lemma clipPolygon1_above:
  assumes "\<forall>v\<in>set poly. live2d v \<longrightarrow> 0 \<le> compare2d P (position2d v)"
  shows "clipPolygon1 P poly = poly"
  using assms by (simp add: clipPolygon1_def list_all_iff classify_nonneg_iff)

lemma clipPolyhedron1_above:
  assumes "\<forall>v\<in>set poly. live3d v \<longrightarrow> 0 \<le> compare3d P (position3d v)"
  shows "clipPolyhedron1 P poly = poly"
  using assms by (simp add: clipPolyhedron1_def list_all_iff classify_nonneg_iff)

lemma clipPolygon1_below:
  assumes "\<forall>v\<in>set poly. live2d v \<longrightarrow> compare2d P (position2d v) < 0"
  shows "\<forall>v\<in>set (clipPolygon1 P poly). \<not> live2d v"
proof (cases "list_all (\<lambda>v. 0 \<le> classify (compare2d P (position2d v))) (filter live2d poly)")
  case True
  then have "\<forall>v\<in>set poly. \<not> live2d v"
    using assms by (fastforce simp: list_all_iff classify_nonneg_iff)
  then show ?thesis using True by (simp add: clipPolygon1_def)
next
  case False
  moreover have "list_all (\<lambda>v. classify (compare2d P (position2d v)) \<le> 0) (filter live2d poly)"
    using assms by (fastforce simp: list_all_iff classify_nonpos_iff)
  ultimately show ?thesis by (auto simp: clipPolygon1_def live2d_def)
qed

lemma clipPolyhedron1_below:
  assumes "\<forall>v\<in>set poly. live3d v \<longrightarrow> compare3d P (position3d v) < 0"
  shows "\<forall>v\<in>set (clipPolyhedron1 P poly). \<not> live3d v"
proof (cases "list_all (\<lambda>v. 0 \<le> classify (compare3d P (position3d v))) (filter live3d poly)")
  case True
  then have "\<forall>v\<in>set poly. \<not> live3d v"
    using assms by (fastforce simp: list_all_iff classify_nonneg_iff)
  then show ?thesis using True by (simp add: clipPolyhedron1_def)
next
  case False
  moreover have "list_all (\<lambda>v. classify (compare3d P (position3d v)) \<le> 0) (filter live3d poly)"
    using assms by (fastforce simp: list_all_iff classify_nonpos_iff)
  ultimately show ?thesis by (auto simp: clipPolyhedron1_def live3d_def)
qed

lemma clipPolygon_empty:
  assumes "\<forall>v\<in>set poly. \<not> live2d v"
  shows "clipPolygon poly planes = poly"
proof (induction planes)
  case Nil
  show ?case by simp
next
  case (Cons P planes)
  have "clipPolygon1 P poly = poly" using assms by (intro clipPolygon1_above) simp
  then show ?case using Cons by simp
qed

lemma clipPolyhedron_empty:
  assumes "\<forall>v\<in>set poly. \<not> live3d v"
  shows "clipPolyhedron poly planes = poly"
proof (induction planes)
  case Nil
  show ?case by simp
next
  case (Cons P planes)
  have "clipPolyhedron1 P poly = poly" using assms by (intro clipPolyhedron1_above) simp
  then show ?case using Cons by simp
qed

lemma find_live2d_None:
  assumes "\<forall>v\<in>set poly. \<not> live2d v"
  shows "List.find (\<lambda>i. live2d (poly ! i)) [0..<length poly] = None"
  using assms by (simp add: find_None_iff)

lemma moments2d_empty:
  assumes "\<forall>v\<in>set poly. \<not> live2d v"
  shows "moments2d poly = (0, \<lparr>x2d = 0, y2d = 0\<rparr>)"
  by (simp add: moments2d_def find_live2d_None [OF assms])

lemma extract_loops2d_empty:
  assumes "\<forall>v\<in>set poly. \<not> live2d v" "\<forall>i\<in>set cand. i < length poly"
  shows "extract_loops2d poly cand visited = []"
  using assms(2) by (induction cand arbitrary: visited) (use assms(1) in auto)

lemma extractFaces2d_empty:
  assumes "\<forall>v\<in>set poly. \<not> live2d v"
  shows "extractFaces2d poly = []"
  unfolding extractFaces2d_def by (rule extract_loops2d_empty [OF assms]) simp

lemma directed_edges3d_empty:
  assumes "\<forall>v\<in>set poly. \<not> live3d v"
  shows "directed_edges3d poly = []"
  using assms by (simp add: directed_edges3d_def)

lemma extractFaces3d_empty:
  assumes "\<forall>v\<in>set poly. \<not> live3d v"
  shows "extractFaces3d poly = []"
  by (simp add: extractFaces3d_def directed_edges3d_empty [OF assms])

lemma moments3d_empty:
  assumes "\<forall>v\<in>set poly. \<not> live3d v"
  shows "moments3d poly = (0, \<lparr>x3d = 0, y3d = 0, z3d = 0\<rparr>)"
  by (simp add: moments3d_def extractFaces3d_empty [OF assms])

lemma map_update_frame:
  assumes "\<And>v. f (g v) = f v"
  shows "map f (xs[i := g (xs ! i)]) = map f xs"
proof (cases "i < length xs")
  case True
  have "map f (xs[i := g (xs ! i)]) = (map f xs)[i := f (g (xs ! i))]" by (rule map_update)
  also have "\<dots> = (map f xs)[i := (map f xs) ! i]" using True assms by simp
  also have "\<dots> = map f xs" by (rule list_update_id)
  finally show ?thesis .
next
  case False
  then have "xs[i := g (xs ! i)] = xs" by (intro list_update_beyond) simp
  then show ?thesis by simp
qed

lemma core2d_setters:
  "map core2d (set_neighbors2d i ns cur) = map core2d cur"
  "map core2d (set_prev2d i p cur) = map core2d cur"
  "map core2d (set_next2d i n cur) = map core2d cur"
proof -
  show "map core2d (set_neighbors2d i ns cur) = map core2d cur"
    unfolding set_neighbors2d_def
    by (rule map_update_frame [where g = "\<lambda>v. v\<lparr>neighbors2d := ns\<rparr>"]) (simp add: core2d_def)
  show "map core2d (set_prev2d i p cur) = map core2d cur"
    unfolding set_prev2d_def
    by (rule map_update_frame [where g = "\<lambda>v. v\<lparr>neighbors2d := (p, snd (neighbors2d v))\<rparr>"])
      (simp add: core2d_def)
  show "map core2d (set_next2d i n cur) = map core2d cur"
    unfolding set_next2d_def
    by (rule map_update_frame [where g = "\<lambda>v. v\<lparr>neighbors2d := (fst (neighbors2d v), n)\<rparr>"])
      (simp add: core2d_def)
qed

lemma core2d_splice: "map core2d (splice2d P poly cuts k cur) = map core2d cur"
  by (simp add: splice2d_def Let_def core2d_setters split: option.splits)

lemma core2d_fold_splice: "map core2d (fold (splice2d P poly cuts) ks cur) = map core2d cur"
  by (induction ks arbitrary: cur) (simp_all add: core2d_splice)

lemma core2d_rewire: "map core2d (rewire2d P poly cuts cur) = map core2d cur"
  by (simp add: rewire2d_def core2d_fold_splice)

lemma core3d_setters:
  "map core3d (set_neighbors3d i ns cur) = map core3d cur"
  "map core3d (set_slot3d i j w cur) = map core3d cur"
proof -
  show "map core3d (set_neighbors3d i ns cur) = map core3d cur"
    unfolding set_neighbors3d_def
    by (rule map_update_frame [where g = "\<lambda>v. v\<lparr>neighbors3d := ns\<rparr>"]) (simp add: core3d_def)
  show "map core3d (set_slot3d i j w cur) = map core3d cur"
    unfolding set_slot3d_def
    by (rule map_update_frame [where g = "\<lambda>v. v\<lparr>neighbors3d := (neighbors3d v)[j := w]\<rparr>"])
      (simp add: core3d_def)
qed

lemma core3d_fold_redirect: "map core3d (fold (redirect3d poly cuts) ks cur) = map core3d cur"
  by (induction ks arbitrary: cur) (simp_all add: redirect3d_def core3d_setters)

lemma core3d_link: "map core3d (link3d P poly cuts k cur) = map core3d cur"
  by (simp add: link3d_def core3d_setters split: option.splits prod.splits)

lemma core3d_fold_link: "map core3d (fold (link3d P poly cuts) ks cur) = map core3d cur"
  by (induction ks arbitrary: cur) (simp_all add: core3d_link)

lemma core3d_rewire: "map core3d (rewire3d P poly cuts cur) = map core3d cur"
  by (simp add: rewire3d_def core3d_fold_link core3d_fold_redirect)

lemma distinct_concat_pairs:
  assumes "distinct xs" "\<And>a. distinct (f a)"
  shows "distinct (concat (map (\<lambda>a. map (\<lambda>s. (a, s)) (f a)) xs))"
  using assms(1)
proof (induction xs)
  case Nil
  show ?case by simp
next
  case (Cons a xs)
  have "distinct (map (\<lambda>s. (a, s)) (f a))"
    using assms(2) by (simp add: distinct_map inj_on_def)
  moreover have "set (map (\<lambda>s. (a, s)) (f a)) \<inter> set (concat (map (\<lambda>a. map (\<lambda>s. (a, s)) (f a)) xs)) = {}"
    using Cons.prems by auto
  ultimately show ?case using Cons by simp
qed

lemma descending_edges2d_distinct: "distinct (descending_edges2d P poly)"
  unfolding descending_edges2d_def by (rule distinct_concat_pairs) auto

lemma descending_edges3d_distinct: "distinct (descending_edges3d P poly)"
  unfolding descending_edges3d_def by (rule distinct_concat_pairs) simp_all

lemma descending_edges2d_set:
  "set (descending_edges2d P poly) =
     {(a, s). a < length poly \<and> s < 2 \<and> above2d P poly (int a) \<and> below2d P poly (nbr2d (poly ! a) s)}"
proof -
  have slots: "[0::nat, 1] = [0..<2]" by (simp add: upt_rec)
  show ?thesis unfolding descending_edges2d_def slots by auto
qed

lemma descending_edges3d_set:
  "set (descending_edges3d P poly) =
     {(a, j). a < length poly \<and> j < length (neighbors3d (poly ! a)) \<and>
              above3d P poly (int a) \<and> below3d P poly (neighbors3d (poly ! a) ! j)}"
  unfolding descending_edges3d_def by auto

lemma cut_parameter_range:
  assumes "0 < da" "db < 0"
  shows "0 < cut_parameter da db \<and> cut_parameter da db < 1"
  using assms by (simp add: cut_parameter_def)

lemma cut_parameter_zero:
  assumes "0 < da" "db < 0"
  shows "da + cut_parameter da db * (db - da) = 0"
proof -
  have "da - db \<noteq> 0" using assms by simp
  then have "cut_parameter da db * (da - db) = da" by (simp add: cut_parameter_def)
  then show ?thesis by (simp add: algebra_simps)
qed

lemma compare2d_linear:
  "compare2d P (plus2d pa (times2d (minus2d pb pa) t))
     = compare2d P pa + t * (compare2d P pb - compare2d P pa)"
  by (simp add: compare2d_def dot2d_def plus2d_def times2d_def minus2d_def algebra_simps)

lemma compare3d_linear:
  "compare3d P (plus3d pa (times3d (minus3d pb pa) t))
     = compare3d P pa + t * (compare3d P pb - compare3d P pa)"
  by (simp add: compare3d_def dot3d_def plus3d_def times3d_def minus3d_def algebra_simps)

lemma interpolate2d_on_plane:
  assumes "0 < compare2d P pa" "compare2d P pb < 0"
  shows "compare2d P (interpolate2d P pa pb) = 0"
  unfolding interpolate2d_def compare2d_linear by (rule cut_parameter_zero [OF assms])

lemma interpolate3d_on_plane:
  assumes "0 < compare3d P pa" "compare3d P pb < 0"
  shows "compare3d P (interpolate3d P pa pb) = 0"
  unfolding interpolate3d_def compare3d_linear by (rule cut_parameter_zero [OF assms])

lemma length_classified2d: "length (classified2d P poly) = length poly"
  by (simp add: classified2d_def)

lemma length_classified3d: "length (classified3d P poly) = length poly"
  by (simp add: classified3d_def)

lemma no_descending2d_if_none_below:
  assumes "list_all (\<lambda>v. 0 \<le> classify (compare2d P (position2d v))) (filter live2d poly)"
  shows "descending_edges2d P poly = []"
proof -
  have "\<not> below2d P poly i" for i
  proof
    assume b: "below2d P poly i"
    then have "nat i < length poly" by (auto simp: below2d_def in_range_def)
    then have "poly ! nat i \<in> set poly" by simp
    then show False using assms b by (auto simp: below2d_def list_all_iff)
  qed
  then have "set (descending_edges2d P poly) = {}"
    by (simp add: descending_edges2d_set)
  then show ?thesis by simp
qed

lemma no_descending2d_if_none_above:
  assumes "list_all (\<lambda>v. classify (compare2d P (position2d v)) \<le> 0) (filter live2d poly)"
  shows "descending_edges2d P poly = []"
proof -
  have "\<not> above2d P poly i" for i
  proof
    assume b: "above2d P poly i"
    then have "nat i < length poly" by (auto simp: above2d_def in_range_def)
    then have "poly ! nat i \<in> set poly" by simp
    then show False using assms b by (auto simp: above2d_def list_all_iff)
  qed
  then have "set (descending_edges2d P poly) = {}"
    by (simp add: descending_edges2d_set)
  then show ?thesis by simp
qed

lemma no_descending3d_if_none_below:
  assumes "list_all (\<lambda>v. 0 \<le> classify (compare3d P (position3d v))) (filter live3d poly)"
  shows "descending_edges3d P poly = []"
proof -
  have "\<not> below3d P poly i" for i
  proof
    assume b: "below3d P poly i"
    then have "nat i < length poly" by (auto simp: below3d_def in_range_def)
    then have "poly ! nat i \<in> set poly" by simp
    then show False using assms b by (auto simp: below3d_def list_all_iff)
  qed
  then have "set (descending_edges3d P poly) = {}"
    by (simp add: descending_edges3d_set)
  then show ?thesis by simp
qed

lemma no_descending3d_if_none_above:
  assumes "list_all (\<lambda>v. classify (compare3d P (position3d v)) \<le> 0) (filter live3d poly)"
  shows "descending_edges3d P poly = []"
proof -
  have "\<not> above3d P poly i" for i
  proof
    assume b: "above3d P poly i"
    then have "nat i < length poly" by (auto simp: above3d_def in_range_def)
    then have "poly ! nat i \<in> set poly" by simp
    then show False using assms b by (auto simp: above3d_def list_all_iff)
  qed
  then have "set (descending_edges3d P poly) = {}"
    by (simp add: descending_edges3d_set)
  then show ?thesis by simp
qed

lemma core2d_clipPolygon1_cut:
  assumes "\<not> list_all (\<lambda>v. 0 \<le> classify (compare2d P (position2d v))) (filter live2d poly)"
    and "\<not> list_all (\<lambda>v. classify (compare2d P (position2d v)) \<le> 0) (filter live2d poly)"
  shows "map core2d (clipPolygon1 P poly)
     = map core2d (classified2d P poly) @ map (core2d \<circ> cut_vertex2d P poly) (descending_edges2d P poly)"
  using assms by (simp add: clipPolygon1_def core2d_rewire)

lemma core3d_clipPolyhedron1_cut:
  assumes "\<not> list_all (\<lambda>v. 0 \<le> classify (compare3d P (position3d v))) (filter live3d poly)"
    and "\<not> list_all (\<lambda>v. classify (compare3d P (position3d v)) \<le> 0) (filter live3d poly)"
  shows "map core3d (clipPolyhedron1 P poly)
     = map core3d (classified3d P poly) @ map (core3d \<circ> cut_vertex3d P poly) (descending_edges3d P poly)"
  using assms by (simp add: clipPolyhedron1_def core3d_rewire)

lemma core2d_new_vertices:
  "map core2d (drop (length poly) (clipPolygon1 P poly))
     = map (core2d \<circ> cut_vertex2d P poly) (descending_edges2d P poly)"
proof (cases "list_all (\<lambda>v. 0 \<le> classify (compare2d P (position2d v))) (filter live2d poly)")
  case True
  then show ?thesis by (simp add: clipPolygon1_def no_descending2d_if_none_below)
next
  case nb: False
  show ?thesis
  proof (cases "list_all (\<lambda>v. classify (compare2d P (position2d v)) \<le> 0) (filter live2d poly)")
    case True
    then show ?thesis using nb by (simp add: clipPolygon1_def no_descending2d_if_none_above)
  next
    case False
    have "map core2d (drop (length poly) (clipPolygon1 P poly))
        = drop (length poly) (map core2d (clipPolygon1 P poly))" by (simp add: drop_map)
    also have "\<dots> = map (core2d \<circ> cut_vertex2d P poly) (descending_edges2d P poly)"
      by (simp add: core2d_clipPolygon1_cut [OF nb False] length_classified2d)
    finally show ?thesis .
  qed
qed

lemma core3d_new_vertices:
  "map core3d (drop (length poly) (clipPolyhedron1 P poly))
     = map (core3d \<circ> cut_vertex3d P poly) (descending_edges3d P poly)"
proof (cases "list_all (\<lambda>v. 0 \<le> classify (compare3d P (position3d v))) (filter live3d poly)")
  case True
  then show ?thesis by (simp add: clipPolyhedron1_def no_descending3d_if_none_below)
next
  case nb: False
  show ?thesis
  proof (cases "list_all (\<lambda>v. classify (compare3d P (position3d v)) \<le> 0) (filter live3d poly)")
    case True
    then show ?thesis using nb by (simp add: clipPolyhedron1_def no_descending3d_if_none_above)
  next
    case False
    have "map core3d (drop (length poly) (clipPolyhedron1 P poly))
        = drop (length poly) (map core3d (clipPolyhedron1 P poly))" by (simp add: drop_map)
    also have "\<dots> = map (core3d \<circ> cut_vertex3d P poly) (descending_edges3d P poly)"
      by (simp add: core3d_clipPolyhedron1_cut [OF nb False] length_classified3d)
    finally show ?thesis .
  qed
qed

text \<open>After one plane, no live vertex is below that plane.\<close>

lemma clipPolygon1_result_above:
  assumes "v \<in> set (clipPolygon1 P poly)" "live2d v"
  shows "0 \<le> compare2d P (position2d v)"
proof (cases "list_all (\<lambda>v. 0 \<le> classify (compare2d P (position2d v))) (filter live2d poly)")
  case True
  then show ?thesis using assms by (auto simp: clipPolygon1_def list_all_iff classify_nonneg_iff)
next
  case nb: False
  show ?thesis
  proof (cases "list_all (\<lambda>v. classify (compare2d P (position2d v)) \<le> 0) (filter live2d poly)")
    case True
    then have "\<not> live2d v" using assms(1) nb by (auto simp: clipPolygon1_def live2d_def)
    then show ?thesis using assms(2) by simp
  next
    case False
    have "core2d v \<in> set (map core2d (clipPolygon1 P poly))" using assms(1) by simp
    then have "core2d v \<in> core2d ` set (classified2d P poly) \<or>
               core2d v \<in> (core2d \<circ> cut_vertex2d P poly) ` set (descending_edges2d P poly)"
      unfolding core2d_clipPolygon1_cut [OF nb False] by auto
    then show ?thesis
    proof
      assume "core2d v \<in> core2d ` set (classified2d P poly)"
      then obtain u where u: "u \<in> set poly"
        and c: "core2d v = core2d (if live2d u
                   then u\<lparr>comp2d := classify (compare2d P (position2d u))\<rparr> else u)"
        by (auto simp: classified2d_def)
      show ?thesis
      proof (cases "live2d u")
        case True
        then have "position2d v = position2d u" "comp2d v = classify (compare2d P (position2d u))"
          using c by (simp_all add: core2d_def)
        then show ?thesis using assms(2) by (simp add: live2d_def classify_nonneg_iff)
      next
        case False
        then have "comp2d v = comp2d u" using c by (simp add: core2d_def)
        then show ?thesis using assms(2) False by (simp add: live2d_def)
      qed
    next
      assume "core2d v \<in> (core2d \<circ> cut_vertex2d P poly) ` set (descending_edges2d P poly)"
      then obtain a s where e: "(a, s) \<in> set (descending_edges2d P poly)"
        and c: "core2d v = core2d (cut_vertex2d P poly (a, s))" by auto
      have ab: "above2d P poly (int a)" "below2d P poly (nbr2d (poly ! a) s)"
        using e by (simp_all add: descending_edges2d_set)
      have "position2d v = interpolate2d P (position2d (poly ! a))
               (position2d (poly ! nat (nbr2d (poly ! a) s)))"
        using c by (simp add: core2d_def cut_vertex2d_def Vertex2d_new_def Let_def)
      moreover have "0 < compare2d P (position2d (poly ! a))"
        using ab(1) by (simp add: above2d_def classify_eq_1_iff)
      moreover have "compare2d P (position2d (poly ! nat (nbr2d (poly ! a) s))) < 0"
        using ab(2) by (simp add: below2d_def classify_eq_m1_iff)
      ultimately show ?thesis by (simp add: interpolate2d_on_plane)
    qed
  qed
qed

lemma clipPolygon1_idem: "clipPolygon1 P (clipPolygon1 P poly) = clipPolygon1 P poly"
  by (rule clipPolygon1_above) (simp add: clipPolygon1_result_above)

lemma clipPolyhedron1_result_above:
  assumes "v \<in> set (clipPolyhedron1 P poly)" "live3d v"
  shows "0 \<le> compare3d P (position3d v)"
proof (cases "list_all (\<lambda>v. 0 \<le> classify (compare3d P (position3d v))) (filter live3d poly)")
  case True
  then show ?thesis using assms by (auto simp: clipPolyhedron1_def list_all_iff classify_nonneg_iff)
next
  case nb: False
  show ?thesis
  proof (cases "list_all (\<lambda>v. classify (compare3d P (position3d v)) \<le> 0) (filter live3d poly)")
    case True
    then have "\<not> live3d v" using assms(1) nb by (auto simp: clipPolyhedron1_def live3d_def)
    then show ?thesis using assms(2) by simp
  next
    case False
    have "core3d v \<in> set (map core3d (clipPolyhedron1 P poly))" using assms(1) by simp
    then have "core3d v \<in> core3d ` set (classified3d P poly) \<or>
               core3d v \<in> (core3d \<circ> cut_vertex3d P poly) ` set (descending_edges3d P poly)"
      unfolding core3d_clipPolyhedron1_cut [OF nb False] by auto
    then show ?thesis
    proof
      assume "core3d v \<in> core3d ` set (classified3d P poly)"
      then obtain u where u: "u \<in> set poly"
        and c: "core3d v = core3d (if live3d u
                   then u\<lparr>comp3d := classify (compare3d P (position3d u))\<rparr> else u)"
        by (auto simp: classified3d_def)
      show ?thesis
      proof (cases "live3d u")
        case True
        then have "position3d v = position3d u" "comp3d v = classify (compare3d P (position3d u))"
          using c by (simp_all add: core3d_def)
        then show ?thesis using assms(2) by (simp add: live3d_def classify_nonneg_iff)
      next
        case False
        then have "comp3d v = comp3d u" using c by (simp add: core3d_def)
        then show ?thesis using assms(2) False by (simp add: live3d_def)
      qed
    next
      assume "core3d v \<in> (core3d \<circ> cut_vertex3d P poly) ` set (descending_edges3d P poly)"
      then obtain a j where e: "(a, j) \<in> set (descending_edges3d P poly)"
        and c: "core3d v = core3d (cut_vertex3d P poly (a, j))" by auto
      have ab: "above3d P poly (int a)" "below3d P poly (neighbors3d (poly ! a) ! j)"
        using e by (simp_all add: descending_edges3d_set)
      have "position3d v = interpolate3d P (position3d (poly ! a))
               (position3d (poly ! nat (neighbors3d (poly ! a) ! j)))"
        using c by (simp add: core3d_def cut_vertex3d_def Vertex3d_new_def Let_def)
      moreover have "0 < compare3d P (position3d (poly ! a))"
        using ab(1) by (simp add: above3d_def classify_eq_1_iff)
      moreover have "compare3d P (position3d (poly ! nat (neighbors3d (poly ! a) ! j))) < 0"
        using ab(2) by (simp add: below3d_def classify_eq_m1_iff)
      ultimately show ?thesis by (simp add: interpolate3d_on_plane)
    qed
  qed
qed

lemma clipPolyhedron1_idem: "clipPolyhedron1 P (clipPolyhedron1 P poly) = clipPolyhedron1 P poly"
  by (rule clipPolyhedron1_above) (simp add: clipPolyhedron1_result_above)

section \<open>The clip of the unit square\<close>

lemma clip_square_half:
  "clipPolygon unit_square [half_plane] =
   [\<lparr>position2d = \<lparr>x2d = 0, y2d = 0\<rparr>, neighbors2d = (3, 1), comp2d = - 1, vID2d = - 1, clips2d = {}\<rparr>,
    \<lparr>position2d = \<lparr>x2d = 1, y2d = 0\<rparr>, neighbors2d = (4, 2), comp2d = 1, vID2d = - 1, clips2d = {}\<rparr>,
    \<lparr>position2d = \<lparr>x2d = 1, y2d = 1\<rparr>, neighbors2d = (1, 5), comp2d = 1, vID2d = - 1, clips2d = {}\<rparr>,
    \<lparr>position2d = \<lparr>x2d = 0, y2d = 1\<rparr>, neighbors2d = (2, 0), comp2d = - 1, vID2d = - 1, clips2d = {}\<rparr>,
    \<lparr>position2d = \<lparr>x2d = 1 / 2, y2d = 0\<rparr>, neighbors2d = (5, 1), comp2d = 1, vID2d = - 1, clips2d = {7}\<rparr>,
    \<lparr>position2d = \<lparr>x2d = 1 / 2, y2d = 1\<rparr>, neighbors2d = (2, 4), comp2d = 1, vID2d = - 1, clips2d = {7}\<rparr>]"
  by code_simp

lemma moments_square_half:
  "moments2d (clipPolygon unit_square [half_plane]) = (1 / 2, \<lparr>x2d = 3 / 8, y2d = 1 / 4\<rparr>)"
  by code_simp

section \<open>The new vertices of a cut\<close>

lemma core2d_cut_vertex:
  "core2d (cut_vertex2d P poly (a, s)) =
     (let pa = position2d (poly ! a); vb = poly ! nat (nbr2d (poly ! a) s); pb = position2d vb;
          da = compare2d P pa; db = compare2d P pb
      in (plus2d pa (times2d (minus2d pb pa) (da / (da - db))), 1, - 1,
          clips2d (poly ! a) \<union> clips2d vb \<union> {pID2d P}))"
  by (simp add: core2d_def cut_vertex2d_def interpolate2d_def cut_parameter_def Vertex2d_new_def Let_def)

lemma core3d_cut_vertex:
  "core3d (cut_vertex3d P poly (a, j)) =
     (let pa = position3d (poly ! a); vb = poly ! nat (neighbors3d (poly ! a) ! j); pb = position3d vb;
          da = compare3d P pa; db = compare3d P pb
      in (plus3d pa (times3d (minus3d pb pa) (da / (da - db))), 1, - 1,
          clips3d (poly ! a) \<union> clips3d vb \<union> {pID3d P}))"
  by (simp add: core3d_def cut_vertex3d_def interpolate3d_def cut_parameter_def Vertex3d_new_def Let_def)

lemma new_vertices2d:
  "map (\<lambda>w. (position2d w, comp2d w, vID2d w, clips2d w)) (drop (length poly) (clipPolygon poly [P]))
     = map (\<lambda>(a, s).
          let pa = position2d (poly ! a); vb = poly ! nat (nbr2d (poly ! a) s); pb = position2d vb;
              da = compare2d P pa; db = compare2d P pb
          in (plus2d pa (times2d (minus2d pb pa) (da / (da - db))), 1, - 1,
              clips2d (poly ! a) \<union> clips2d vb \<union> {pID2d P}))
         (descending_edges2d P poly)"
proof -
  have "map core2d (drop (length poly) (clipPolygon poly [P]))
      = map (core2d \<circ> cut_vertex2d P poly) (descending_edges2d P poly)"
    by (simp add: core2d_new_vertices)
  moreover have "core2d = (\<lambda>w. (position2d w, comp2d w, vID2d w, clips2d w))"
    by (rule ext) (simp add: core2d_def)
  moreover have "core2d \<circ> cut_vertex2d P poly = (\<lambda>(a, s).
          let pa = position2d (poly ! a); vb = poly ! nat (nbr2d (poly ! a) s); pb = position2d vb;
              da = compare2d P pa; db = compare2d P pb
          in (plus2d pa (times2d (minus2d pb pa) (da / (da - db))), 1, - 1,
              clips2d (poly ! a) \<union> clips2d vb \<union> {pID2d P}))"
    by (rule ext) (simp add: core2d_cut_vertex split: prod.splits)
  ultimately show ?thesis by simp
qed

lemma new_vertices3d:
  "map (\<lambda>w. (position3d w, comp3d w, vID3d w, clips3d w)) (drop (length poly) (clipPolyhedron poly [P]))
     = map (\<lambda>(a, j).
          let pa = position3d (poly ! a); vb = poly ! nat (neighbors3d (poly ! a) ! j); pb = position3d vb;
              da = compare3d P pa; db = compare3d P pb
          in (plus3d pa (times3d (minus3d pb pa) (da / (da - db))), 1, - 1,
              clips3d (poly ! a) \<union> clips3d vb \<union> {pID3d P}))
         (descending_edges3d P poly)"
proof -
  have "map core3d (drop (length poly) (clipPolyhedron poly [P]))
      = map (core3d \<circ> cut_vertex3d P poly) (descending_edges3d P poly)"
    by (simp add: core3d_new_vertices)
  moreover have "core3d = (\<lambda>w. (position3d w, comp3d w, vID3d w, clips3d w))"
    by (rule ext) (simp add: core3d_def)
  moreover have "core3d \<circ> cut_vertex3d P poly = (\<lambda>(a, j).
          let pa = position3d (poly ! a); vb = poly ! nat (neighbors3d (poly ! a) ! j); pb = position3d vb;
              da = compare3d P pa; db = compare3d P pb
          in (plus3d pa (times3d (minus3d pb pa) (da / (da - db))), 1, - 1,
              clips3d (poly ! a) \<union> clips3d vb \<union> {pID3d P}))"
    by (rule ext) (simp add: core3d_cut_vertex split: prod.splits)
  ultimately show ?thesis by simp
qed

lemma descending2d_iff:
  "set (descending_edges2d P poly) =
     {(a, s). a < length poly \<and> s < 2 \<and>
        live2d (poly ! a) \<and> 0 < compare2d P (position2d (poly ! a)) \<and>
        in_range poly (nbr2d (poly ! a) s) \<and> live2d (poly ! nat (nbr2d (poly ! a) s)) \<and>
        compare2d P (position2d (poly ! nat (nbr2d (poly ! a) s))) < 0}"
  unfolding descending_edges2d_set
  by (auto simp: above2d_def below2d_def in_range_def classify_eq_1_iff classify_eq_m1_iff)

lemma descending3d_iff:
  "set (descending_edges3d P poly) =
     {(a, j). a < length poly \<and> j < length (neighbors3d (poly ! a)) \<and>
        live3d (poly ! a) \<and> 0 < compare3d P (position3d (poly ! a)) \<and>
        in_range poly (neighbors3d (poly ! a) ! j) \<and>
        live3d (poly ! nat (neighbors3d (poly ! a) ! j)) \<and>
        compare3d P (position3d (poly ! nat (neighbors3d (poly ! a) ! j))) < 0}"
  unfolding descending_edges3d_set
  by (auto simp: above3d_def below3d_def in_range_def classify_eq_1_iff classify_eq_m1_iff)

lemma parameter_range2d:
  "\<forall>(a, s)\<in>set (descending_edges2d P poly).
     0 < cut_parameter (compare2d P (position2d (poly ! a)))
           (compare2d P (position2d (poly ! nat (nbr2d (poly ! a) s)))) \<and>
     cut_parameter (compare2d P (position2d (poly ! a)))
           (compare2d P (position2d (poly ! nat (nbr2d (poly ! a) s)))) < 1"
  unfolding descending2d_iff using cut_parameter_range by auto

lemma parameter_range3d:
  "\<forall>(a, j)\<in>set (descending_edges3d P poly).
     0 < cut_parameter (compare3d P (position3d (poly ! a)))
           (compare3d P (position3d (poly ! nat (neighbors3d (poly ! a) ! j)))) \<and>
     cut_parameter (compare3d P (position3d (poly ! a)))
           (compare3d P (position3d (poly ! nat (neighbors3d (poly ! a) ! j)))) < 1"
  unfolding descending3d_iff using cut_parameter_range by auto

lemma new_vertices_tagged2d:
  "\<forall>w\<in>set (drop (length poly) (clipPolygon poly [P])). pID2d P \<in> clips2d w"
proof
  fix w assume "w \<in> set (drop (length poly) (clipPolygon poly [P]))"
  then have "core2d w \<in> set (map core2d (drop (length poly) (clipPolygon1 P poly)))" by simp
  then obtain e where "core2d w = core2d (cut_vertex2d P poly e)"
    unfolding core2d_new_vertices by auto
  then show "pID2d P \<in> clips2d w"
    by (simp add: core2d_def cut_vertex2d_def Let_def)
qed

lemma new_vertices_tagged3d:
  "\<forall>w\<in>set (drop (length poly) (clipPolyhedron poly [P])). pID3d P \<in> clips3d w"
proof
  fix w assume "w \<in> set (drop (length poly) (clipPolyhedron poly [P]))"
  then have "core3d w \<in> set (map core3d (drop (length poly) (clipPolyhedron1 P poly)))" by simp
  then obtain e where "core3d w = core3d (cut_vertex3d P poly e)"
    unfolding core3d_new_vertices by auto
  then show "pID3d P \<in> clips3d w"
    by (simp add: core3d_def cut_vertex3d_def Let_def)
qed

section \<open>Claims about the clipper\<close>

text \<open>
  C1. If no live vertex of a polygon or polyhedron is strictly below the plane \<open>P\<close>
  (\<^verbatim>\<open>P.compare(v.position) >= 0\<close> for every live vertex \<open>v\<close>), then \<^verbatim>\<open>clipPolygon\<close> and
  \<^verbatim>\<open>clipPolyhedron\<close> with the one-plane list \<open>[P]\<close> return the polytope as it was: no
  vertex is added, removed, repositioned or rewired.
\<close>

theorem clip_not_below_unchanged:
  "((\<forall>v\<in>set poly. live2d v \<longrightarrow> 0 \<le> compare2d P (position2d v)) \<longrightarrow>
      clipPolygon poly [P] = poly) \<and>
   ((\<forall>v\<in>set poly3. live3d v \<longrightarrow> 0 \<le> compare3d P3 (position3d v)) \<longrightarrow>
      clipPolyhedron poly3 [P3] = poly3)"
  by (simp add: clipPolygon1_above clipPolyhedron1_above)

text \<open>
  The unit square and the plane \<open>x \<ge> 0\<close>, on which two of its vertices lie; the
  tetrahedron and the plane \<open>z \<ge> 0\<close>, on which three of its vertices lie.
\<close>

theorem clip_not_below_unchanged_witness:
  "clipPolygon unit_square [\<lparr>dist2d = 0, normal2d = \<lparr>x2d = 1, y2d = 0\<rparr>, pID2d = 1\<rparr>] = unit_square \<and>
   clipPolyhedron tetrahedron
     [\<lparr>normal3d = \<lparr>x3d = 0, y3d = 0, z3d = 1\<rparr>, dist3d = 0, pID3d = 1\<rparr>] = tetrahedron"
proof -
  have h2: "\<forall>v\<in>set unit_square. live2d v \<longrightarrow>
      0 \<le> compare2d \<lparr>dist2d = 0, normal2d = \<lparr>x2d = 1, y2d = 0\<rparr>, pID2d = 1\<rparr> (position2d v)"
    by (simp add: unit_square_def Vertex2d_new_def compare2d_def dot2d_def)
  have h3: "\<forall>v\<in>set tetrahedron. live3d v \<longrightarrow>
      0 \<le> compare3d \<lparr>normal3d = \<lparr>x3d = 0, y3d = 0, z3d = 1\<rparr>, dist3d = 0, pID3d = 1\<rparr> (position3d v)"
    by (simp add: tetrahedron_def Vertex3d_new_def compare3d_def dot3d_def)
  show ?thesis
    using h2 h3
      clip_not_below_unchanged
        [of unit_square "\<lparr>dist2d = 0, normal2d = \<lparr>x2d = 1, y2d = 0\<rparr>, pID2d = 1\<rparr>"
          tetrahedron "\<lparr>normal3d = \<lparr>x3d = 0, y3d = 0, z3d = 1\<rparr>, dist3d = 0, pID3d = 1\<rparr>"]
    by blast
qed

text \<open>
  C2. If every live vertex of a polygon or polyhedron is strictly below the plane \<open>P\<close>,
  clipping with a list that starts with \<open>P\<close> leaves no live vertex, whatever planes
  follow. The result is a polytope like any other (the clipper has no error to return):
  its \<^verbatim>\<open>moments\<close> are the zeroth moment 0 and the zero vector, and \<^verbatim>\<open>extractFaces\<close>
  returns the empty list.
\<close>

theorem clip_all_below_empty:
  "((\<forall>v\<in>set poly. live2d v \<longrightarrow> compare2d P (position2d v) < 0) \<longrightarrow>
      list_all (\<lambda>v. \<not> live2d v) (clipPolygon poly (P # planes)) \<and>
      moments2d (clipPolygon poly (P # planes)) = (0, \<lparr>x2d = 0, y2d = 0\<rparr>) \<and>
      extractFaces2d (clipPolygon poly (P # planes)) = []) \<and>
   ((\<forall>v\<in>set poly3. live3d v \<longrightarrow> compare3d P3 (position3d v) < 0) \<longrightarrow>
      list_all (\<lambda>v. \<not> live3d v) (clipPolyhedron poly3 (P3 # planes3)) \<and>
      moments3d (clipPolyhedron poly3 (P3 # planes3)) = (0, \<lparr>x3d = 0, y3d = 0, z3d = 0\<rparr>) \<and>
      extractFaces3d (clipPolyhedron poly3 (P3 # planes3)) = [])"
proof (intro conjI impI)
  assume b: "\<forall>v\<in>set poly. live2d v \<longrightarrow> compare2d P (position2d v) < 0"
  have e: "\<forall>v\<in>set (clipPolygon1 P poly). \<not> live2d v" by (rule clipPolygon1_below [OF b])
  have r: "clipPolygon poly (P # planes) = clipPolygon1 P poly"
    by (simp add: clipPolygon_empty [OF e])
  show "list_all (\<lambda>v. \<not> live2d v) (clipPolygon poly (P # planes))"
    unfolding r using e by (simp add: list_all_iff)
  show "moments2d (clipPolygon poly (P # planes)) = (0, \<lparr>x2d = 0, y2d = 0\<rparr>)"
    unfolding r by (rule moments2d_empty [OF e])
  show "extractFaces2d (clipPolygon poly (P # planes)) = []"
    unfolding r by (rule extractFaces2d_empty [OF e])
next
  assume b: "\<forall>v\<in>set poly3. live3d v \<longrightarrow> compare3d P3 (position3d v) < 0"
  have e: "\<forall>v\<in>set (clipPolyhedron1 P3 poly3). \<not> live3d v"
    by (rule clipPolyhedron1_below [OF b])
  have r: "clipPolyhedron poly3 (P3 # planes3) = clipPolyhedron1 P3 poly3"
    by (simp add: clipPolyhedron_empty [OF e])
  show "list_all (\<lambda>v. \<not> live3d v) (clipPolyhedron poly3 (P3 # planes3))"
    unfolding r using e by (simp add: list_all_iff)
  show "moments3d (clipPolyhedron poly3 (P3 # planes3)) = (0, \<lparr>x3d = 0, y3d = 0, z3d = 0\<rparr>)"
    unfolding r by (rule moments3d_empty [OF e])
  show "extractFaces3d (clipPolyhedron poly3 (P3 # planes3)) = []"
    unfolding r by (rule extractFaces3d_empty [OF e])
qed

text \<open>
  Scenario 3 of the specification: the unit square and the plane \<open>x \<ge> 2\<close>, followed by
  a second plane; the tetrahedron and the plane \<open>z \<ge> 2\<close>.
\<close>

theorem clip_all_below_empty_witness:
  "list_all (\<lambda>v. \<not> live2d v)
     (clipPolygon unit_square
        [\<lparr>dist2d = - 2, normal2d = \<lparr>x2d = 1, y2d = 0\<rparr>, pID2d = 1\<rparr>, half_plane]) \<and>
   moments2d
     (clipPolygon unit_square
        [\<lparr>dist2d = - 2, normal2d = \<lparr>x2d = 1, y2d = 0\<rparr>, pID2d = 1\<rparr>, half_plane])
     = (0, \<lparr>x2d = 0, y2d = 0\<rparr>) \<and>
   extractFaces2d
     (clipPolygon unit_square
        [\<lparr>dist2d = - 2, normal2d = \<lparr>x2d = 1, y2d = 0\<rparr>, pID2d = 1\<rparr>, half_plane])
     = [] \<and>
   list_all (\<lambda>v. \<not> live3d v)
     (clipPolyhedron tetrahedron
        [\<lparr>normal3d = \<lparr>x3d = 0, y3d = 0, z3d = 1\<rparr>, dist3d = - 2, pID3d = 1\<rparr>]) \<and>
   moments3d
     (clipPolyhedron tetrahedron
        [\<lparr>normal3d = \<lparr>x3d = 0, y3d = 0, z3d = 1\<rparr>, dist3d = - 2, pID3d = 1\<rparr>])
     = (0, \<lparr>x3d = 0, y3d = 0, z3d = 0\<rparr>) \<and>
   extractFaces3d
     (clipPolyhedron tetrahedron
        [\<lparr>normal3d = \<lparr>x3d = 0, y3d = 0, z3d = 1\<rparr>, dist3d = - 2, pID3d = 1\<rparr>])
     = []"
proof -
  have h2: "\<forall>v\<in>set unit_square. live2d v \<longrightarrow>
      compare2d \<lparr>dist2d = - 2, normal2d = \<lparr>x2d = 1, y2d = 0\<rparr>, pID2d = 1\<rparr> (position2d v) < 0"
    by (simp add: unit_square_def Vertex2d_new_def compare2d_def dot2d_def)
  have h3: "\<forall>v\<in>set tetrahedron. live3d v \<longrightarrow>
      compare3d \<lparr>normal3d = \<lparr>x3d = 0, y3d = 0, z3d = 1\<rparr>, dist3d = - 2, pID3d = 1\<rparr> (position3d v) < 0"
    by (simp add: tetrahedron_def Vertex3d_new_def compare3d_def dot3d_def)
  show ?thesis
    using h2 h3
      clip_all_below_empty
        [of unit_square "\<lparr>dist2d = - 2, normal2d = \<lparr>x2d = 1, y2d = 0\<rparr>, pID2d = 1\<rparr>"
          "[half_plane]"
          tetrahedron "\<lparr>normal3d = \<lparr>x3d = 0, y3d = 0, z3d = 1\<rparr>, dist3d = - 2, pID3d = 1\<rparr>" "[]"]
    by blast
qed


end
